theory Spec2Isabelle
  imports Main "HOL-Library.Sublist"
begin

section \<open>The image manager of kube-fledged (pkg/images/image\_manager.go)\<close>

text \<open>
  The image manager keeps one shared table, \<open>imageworkstatus\<close>, from job names to work
  results. Three paths touch it: \<open>processNextWorkItem\<close> (the dispatcher) inserts,
  \<open>handlePodStatusChange\<close> (the pod informer's handler) resolves single entries, and
  \<open>updateImageCacheStatus\<close> (one run per flush item) waits, force-resolves what is still
  pending, copies the entries of one image cache into a snapshot and removes them.

  Each Go function is embedded as a function of the table (or of the manager's state) that
  returns the new state together with the list of \<^emph>\<open>events\<close> it performed, in program
  order: operations on \<open>m.lock\<close>, calls to the cluster, operations on the image work queue,
  and sends on the completion channel. Cluster calls and helper functions that live outside
  this file are fields of an environment record. A Go \<open>range\<close> over the table visits the keys
  in an order the runtime chooses; every loop takes that order as an explicit list of keys
  and looks each key up in the current table, so an order that names a key twice or a key
  that is absent behaves as the Go loop does on the keys that exist.

  Log output (glog) is not modelled, and the arguments of the log calls (which read the
  labels of the request's node) are not evaluated. The \<open>Imagecache\<close> pointer of a request
  is taken to be non-nil, as the producer of work requests always sets it; the \<open>Node\<close>
  pointer is an option, since a flush item is recognised by its being nil.
\<close>

subsection \<open>Constants\<close>

definition fakeJobPrefix :: string where
  "fakeJobPrefix = ''fakejob-''"

definition ImageWorkResultStatusSucceeded :: string where
  "ImageWorkResultStatusSucceeded = ''succeeded''"

definition ImageWorkResultStatusFailed :: string where
  "ImageWorkResultStatusFailed = ''failed''"

definition ImageWorkResultStatusJobCreated :: string where
  "ImageWorkResultStatusJobCreated = ''jobcreated''"

definition ImageWorkResultStatusAlreadyPulled :: string where
  "ImageWorkResultStatusAlreadyPulled = ''alreadypulled''"

text \<open>\<open>WorkType\<close> is a Go string type with six named values.\<close>

type_synonym WorkType = string

definition ImageCacheCreate :: WorkType where
  "ImageCacheCreate = ''create''"

definition ImageCacheUpdate :: WorkType where
  "ImageCacheUpdate = ''update''"

definition ImageCacheDelete :: WorkType where
  "ImageCacheDelete = ''delete''"

definition ImageCacheStatusUpdate :: WorkType where
  "ImageCacheStatusUpdate = ''statusupdate''"

definition ImageCacheRefresh :: WorkType where
  "ImageCacheRefresh = ''refresh''"

definition ImageCachePurge :: WorkType where
  "ImageCachePurge = ''purge''"

text \<open>The pod phases of the core API (\<open>corev1.PodPhase\<close>, a string type).\<close>

definition PodPending :: string where
  "PodPending = ''Pending''"

definition PodRunning :: string where
  "PodRunning = ''Running''"

definition PodSucceeded :: string where
  "PodSucceeded = ''Succeeded''"

definition PodFailed :: string where
  "PodFailed = ''Failed''"

subsection \<open>Data\<close>

text \<open>
  Only the fields the image manager reads are kept. Where two Go structs share a field
  name, the second one carries its struct's name as a prefix (\<open>PodName\<close>, \<open>JobName\<close>,
  \<open>KeyWorkType\<close>, \<open>KeyStatus\<close>, \<open>WaitingReason\<close>, ...).
\<close>

record ImageCache =
  Namespace :: string
  Name :: string

record Node =
  NodeLabels :: "(string \<times> string) list"

record ImageWorkRequest =
  Image :: string
  Node :: "Node option"
  ContainerRuntimeVersion :: string
  WorkType :: WorkType
  Imagecache :: ImageCache

record ImageWorkResult =
  ImageWorkRequest :: ImageWorkRequest
  Status :: string
  Reason :: string
  Message :: string

type_synonym WorkStatusTable = "string \<rightharpoonup> ImageWorkResult"

record WorkQueueKey =
  KeyWorkType :: WorkType
  ObjKey :: string
  KeyStatus :: "WorkStatusTable option"
  OldImageCache :: "ImageCache option"

record ContainerStateWaiting =
  WaitingReason :: string
  WaitingMessage :: string

record ContainerStateTerminated =
  TerminatedReason :: string
  TerminatedMessage :: string

record ContainerState =
  Waiting :: "ContainerStateWaiting option"
  Terminated :: "ContainerStateTerminated option"

record ContainerStatus =
  State :: ContainerState

record PodStatus =
  Phase :: string
  ContainerStatuses :: "ContainerStatus list"

record Pod =
  PodName :: string
  Labels :: "string \<rightharpoonup> string"
  ResourceVersion :: string
  PodStatus :: PodStatus

record Event =
  EventMessage :: string

record Job =
  JobName :: string

text \<open>
  Errors are values. \<open>ApiError\<close> is whatever a cluster call or a helper returned;
  the others are built by the image manager itself (\<open>fmt.Errorf\<close>).
\<close>

datatype error =
    ApiError string
  | NoPodsMatched string
  | MoreThanOnePodMatched string
  | NoImageCacheReference
  | ErrorDeletingImage string error
  | ErrorPullingImage string error
  | ErrorCheckIfImageNeedsToBePulled error
  | UnexpectedTypeInWorkqueue

text \<open>A Go run-time panic; the only one the modelled code can raise is an index out of range.\<close>

datatype panic = IndexOutOfRange

text \<open>What comes off the image work queue: an \<open>interface{}\<close> that should hold a request.\<close>

datatype queue_item = IWR ImageWorkRequest | OtherItem string

text \<open>
  The events a function performs. \<open>Lock\<close>, \<open>Unlock\<close>, \<open>RLock\<close>, \<open>RUnlock\<close> act on
  \<open>m.lock\<close>. \<open>ListPods\<close> reads the pod informer's lister; \<open>ListEvents\<close>, \<open>DeleteJob\<close> and
  \<open>CreateJob\<close> are requests to the API server through \<open>kubeclientset\<close>. \<open>Sleep\<close> is one
  interval of \<open>wait.Poll\<close>. \<open>MakeChan\<close>, \<open>Send\<close> and \<open>Recv\<close> act on the completion channel
  \<open>errCh\<close> (made unbuffered), \<open>Go\<close> starts \<open>updateImageCacheStatus\<close> for the named image
  cache in a goroutine of its own. \<open>QForget\<close>, \<open>QDone\<close> and \<open>QAddRateLimited\<close> are calls on
  \<open>imageworkqueue\<close>, \<open>HandleError\<close> is \<open>runtime.HandleError\<close>.
\<close>

datatype event =
    Lock | Unlock | RLock | RUnlock
  | Sleep
  | ListPods string
  | ListEvents string
  | DeleteJob string
  | CreateJob string
  | MakeChan
  | Go string
  | Send "error option"
  | Recv
  | QForget queue_item
  | QDone queue_item
  | QAddRateLimited queue_item
  | HandleError error

text \<open>
  The environment: the cluster as the calls of this file see it, and the helpers of the
  package that are defined in other files. \<open>podsList job\<close> is
  \<open>podsLister.Pods(ns).List\<close> with the selector \<open>job-name = job\<close>, \<open>eventsList pod\<close> is
  the list of events with reason \<open>Failed\<close> that involve the pod, \<open>jobsDelete\<close> and
  \<open>jobsCreate\<close> are the batch API. \<open>randomSuffix\<close> is what
  \<open>names.SimpleNameGenerator.GenerateName\<close> appends to its argument.
\<close>

record Env =
  podsList :: "string \<Rightarrow> error + Pod list"
  eventsList :: "string \<Rightarrow> error + Event list"
  jobsDelete :: "string \<Rightarrow> error option"
  jobsCreate :: "Job \<Rightarrow> error + Job"
  MetaNamespaceKeyFunc :: "ImageCache \<Rightarrow> error + string"
  checkIfImageNeedsToBePulled :: "string \<Rightarrow> string \<Rightarrow> Node option \<Rightarrow> error + bool"
  newImagePullJob :: "ImageCache \<Rightarrow> string \<Rightarrow> Node option \<Rightarrow> string \<Rightarrow> error + Job"
  newImageDeleteJob :: "ImageCache \<Rightarrow> string \<Rightarrow> Node option \<Rightarrow> string \<Rightarrow> string \<Rightarrow> error + Job"
  randomSuffix :: string

text \<open>
  The manager's state: the table, the items it has added to the reconciliation loop's
  queue (\<open>m.workqueue.AddRateLimited\<close>), and its configuration. The deadline is counted in
  poll intervals of one second; zero means no deadline.
\<close>

record ImageManager =
  imageworkstatus :: WorkStatusTable
  workqueue :: "WorkQueueKey list"
  imagePullDeadlineDuration :: nat
  dockerClientImage :: string
  imagePullPolicy :: string

subsection \<open>The pod informer's update handler and \<open>handlePodStatusChange\<close>\<close>

text \<open>A Go map read: a missing key gives the empty string.\<close>

definition label :: "(string \<rightharpoonup> string) \<Rightarrow> string \<Rightarrow> string" where
  "label ls k = (case ls k of None \<Rightarrow> '''' | Some v \<Rightarrow> v)"

text \<open>
  \<open>handlePodStatusChange\<close>: read the entry under the read lock, change the copy, write it
  back under the write lock. On a failed pod the code reads \<open>ContainerStatuses[0]\<close>
  without looking at the length, which panics on an empty list (the write lock is not
  reached then).
\<close>

definition handlePodStatusChange ::
  "Pod \<Rightarrow> WorkStatusTable \<Rightarrow> event list \<times> (panic + WorkStatusTable)" where
  "handlePodStatusChange pod tbl =
     (case tbl (label (Labels pod) ''job-name'') of
        None \<Rightarrow> ([RLock, RUnlock], Inr tbl)
      | Some iwres \<Rightarrow>
          (let iwres1 =
                 (if Phase (PodStatus pod) = PodSucceeded
                  then iwres\<lparr>Status := ImageWorkResultStatusSucceeded\<rparr> else iwres)
           in if Phase (PodStatus pod) = PodFailed then
                (case ContainerStatuses (PodStatus pod) of
                   [] \<Rightarrow> ([RLock, RUnlock], Inl IndexOutOfRange)
                 | cs # _ \<Rightarrow>
                     (let iwres2 = iwres1\<lparr>Status := ImageWorkResultStatusFailed\<rparr>;
                          iwres3 =
                            (case Terminated (State cs) of
                               None \<Rightarrow> iwres2
                             | Some t \<Rightarrow>
                                 iwres2\<lparr>Reason := TerminatedReason t,
                                        Message := TerminatedMessage t\<rparr>)
                      in ([RLock, RUnlock, Lock, Unlock],
                          Inr (tbl(label (Labels pod) ''job-name'' \<mapsto> iwres3)))))
              else ([RLock, RUnlock, Lock, Unlock],
                    Inr (tbl(label (Labels pod) ''job-name'' \<mapsto> iwres1)))))"

text \<open>
  The \<open>UpdateFunc\<close> registered in \<open>NewImageManager\<close>: nothing on an unchanged resource
  version; the handler runs when the new phase is Succeeded or Failed and the old phase
  is neither.
\<close>

definition UpdateFunc ::
  "Pod \<Rightarrow> Pod \<Rightarrow> WorkStatusTable \<Rightarrow> event list \<times> (panic + WorkStatusTable)" where
  "UpdateFunc oldPod newPod tbl =
     (if ResourceVersion newPod = ResourceVersion oldPod then ([], Inr tbl)
      else if (Phase (PodStatus newPod) = PodSucceeded \<or> Phase (PodStatus newPod) = PodFailed) \<and>
              (Phase (PodStatus oldPod) \<noteq> PodSucceeded \<and> Phase (PodStatus oldPod) \<noteq> PodFailed)
           then handlePodStatusChange newPod tbl
           else ([], Inr tbl))"

subsection \<open>\<open>updatePendingImageWorkResults\<close>: the forced resolution\<close>

text \<open>
  Lines 223 to 237: the reason and message taken from a pending pod. A waiting state is
  copied first, a terminated state after it, so the terminated one wins when both are set.
\<close>

definition pendingReason :: "Pod \<Rightarrow> ImageWorkResult \<Rightarrow> ImageWorkResult" where
  "pendingReason pod iwres =
     (if Phase (PodStatus pod) = PodPending then
        (case ContainerStatuses (PodStatus pod) of
           [cs] \<Rightarrow>
             (let iwres1 =
                    (case Waiting (State cs) of
                       None \<Rightarrow> iwres
                     | Some w \<Rightarrow> iwres\<lparr>Reason := WaitingReason w, Message := WaitingMessage w\<rparr>)
              in (case Terminated (State cs) of
                    None \<Rightarrow> iwres1
                  | Some t \<Rightarrow>
                      iwres1\<lparr>Reason := TerminatedReason t, Message := TerminatedMessage t\<rparr>))
         | _ \<Rightarrow> iwres\<lparr>Reason := ''Pending'', Message := ''Check if node is ready''\<rparr>)
      else iwres)"

text \<open>
  Lines 203 to 256: the body of the loop for one entry that is still \<open>jobcreated\<close>. It gives
  the events performed and either the error the function returns with or the entry to
  store.
\<close>

definition forceResolve ::
  "Env \<Rightarrow> string \<Rightarrow> ImageWorkResult \<Rightarrow> event list \<times> (error + ImageWorkResult)" where
  "forceResolve c job iwres =
     (case podsList c job of
        Inl err \<Rightarrow> ([ListPods job], Inl err)
      | Inr pods \<Rightarrow>
          (case pods of
             [] \<Rightarrow> ([ListPods job], Inl (NoPodsMatched job))
           | [pod] \<Rightarrow>
               (let iwres1 = pendingReason pod (iwres\<lparr>Status := ImageWorkResultStatusFailed\<rparr>)
                in if WorkType (ImageWorkRequest iwres1) \<noteq> ImageCachePurge then
                     (case eventsList c (PodName pod) of
                        Inl err \<Rightarrow> ([ListPods job, ListEvents (PodName pod)], Inl err)
                      | Inr eventlist \<Rightarrow>
                          ([ListPods job, ListEvents (PodName pod)],
                           Inr (iwres1\<lparr>Message :=
                                  foldl (\<lambda>msg v. msg @ '':'' @ EventMessage v)
                                    (Message iwres1) eventlist\<rparr>)))
                   else ([ListPods job], Inr iwres1))
           | _ \<Rightarrow> ([ListPods job], Inl (MoreThanOnePodMatched job))))"

text \<open>The \<open>range\<close> loop of lines 200 to 260, over the keys in the order \<open>jobs\<close>.\<close>

fun pendingLoop ::
  "Env \<Rightarrow> string \<Rightarrow> string list \<Rightarrow> WorkStatusTable \<Rightarrow>
     event list \<times> WorkStatusTable \<times> error option" where
  "pendingLoop c imageCacheName [] tbl = ([], tbl, None)"
| "pendingLoop c imageCacheName (job # jobs) tbl =
     (case tbl job of
        None \<Rightarrow> pendingLoop c imageCacheName jobs tbl
      | Some iwres \<Rightarrow>
          (if Name (Imagecache (ImageWorkRequest iwres)) = imageCacheName then
             (if Status iwres = ImageWorkResultStatusJobCreated then
                (case forceResolve c job iwres of
                   (evs, Inl err) \<Rightarrow> (evs, tbl, Some err)
                 | (evs, Inr iwres') \<Rightarrow>
                     (case pendingLoop c imageCacheName jobs (tbl(job \<mapsto> iwres')) of
                        (evs', tbl', r) \<Rightarrow> (evs @ evs', tbl', r)))
              else pendingLoop c imageCacheName jobs tbl)
           else pendingLoop c imageCacheName jobs tbl))"

text \<open>
  The function takes the write lock first and releases it on return
  (\<open>defer m.lock.Unlock()\<close>), whatever the outcome.
\<close>

definition updatePendingImageWorkResults ::
  "Env \<Rightarrow> string \<Rightarrow> string list \<Rightarrow> WorkStatusTable \<Rightarrow>
     event list \<times> WorkStatusTable \<times> error option" where
  "updatePendingImageWorkResults c imageCacheName jobs tbl =
     (case pendingLoop c imageCacheName jobs tbl of
        (evs, tbl', r) \<Rightarrow> (Lock # evs @ [Unlock], tbl', r))"

subsection \<open>\<open>updateImageCacheStatus\<close>: one run of the deadline reconciler\<close>

text \<open>
  The condition of \<open>wait.Poll\<close> (lines 267 to 280): done unless some entry of the image
  cache is still \<open>jobcreated\<close>.
\<close>

fun pollCondition :: "string \<Rightarrow> string list \<Rightarrow> WorkStatusTable \<Rightarrow> bool" where
  "pollCondition imageCacheName [] tbl = True"
| "pollCondition imageCacheName (job # jobs) tbl =
     (case tbl job of
        None \<Rightarrow> pollCondition imageCacheName jobs tbl
      | Some iwres \<Rightarrow>
          (if Name (Imagecache (ImageWorkRequest iwres)) = imageCacheName \<and>
              Status iwres = ImageWorkResultStatusJobCreated
           then False
           else pollCondition imageCacheName jobs tbl))"

text \<open>
  \<open>wait.Poll(interval, timeout, condition)\<close> of the apimachinery library. A ticker fires
  after every interval and each tick runs the condition; the poll returns as soon as the
  condition holds. With a timeout other than zero the poll also ends when the timeout
  has passed, after one last run of the condition; the timeout is counted in whole
  intervals, so at most that many conditions are run, each after a wait of one interval.
  With a timeout of zero there is no timer: the poll goes on until the condition holds.
  The condition only reads the table, under the read lock, and the caller drops the
  result of the poll, so the poll contributes events only.

  Nothing else writes the table in this model, so the condition gives the same answer
  at every tick: \<open>pollForever\<close> returns the events of one tick when the condition holds and
  does not return (\<open>None\<close>) when it does not.
\<close>

fun pollTicks :: "nat \<Rightarrow> string \<Rightarrow> string list \<Rightarrow> WorkStatusTable \<Rightarrow> event list" where
  "pollTicks 0 imageCacheName jobs tbl = []"
| "pollTicks (Suc n) imageCacheName jobs tbl =
     (if pollCondition imageCacheName jobs tbl then [Sleep, RLock, RUnlock]
      else [Sleep, RLock, RUnlock] @ pollTicks n imageCacheName jobs tbl)"

partial_function (option) pollForever ::
  "string \<Rightarrow> string list \<Rightarrow> WorkStatusTable \<Rightarrow> event list option" where
  "pollForever imageCacheName jobs tbl =
     (if pollCondition imageCacheName jobs tbl then Some [Sleep, RLock, RUnlock]
      else Option.bind (pollForever imageCacheName jobs tbl)
             (\<lambda>evs. Some ([Sleep, RLock, RUnlock] @ evs)))"

definition waitPoll ::
  "nat \<Rightarrow> string \<Rightarrow> string list \<Rightarrow> WorkStatusTable \<Rightarrow> event list option" where
  "waitPoll timeout imageCacheName jobs tbl =
     (if timeout = 0 then pollForever imageCacheName jobs tbl
      else Some (pollTicks timeout imageCacheName jobs tbl))"

text \<open>
  The loop of lines 296 to 314: copy each entry of the image cache into \<open>iwstatus\<close>,
  remember its image cache, delete it from the table, and delete its job unless the job
  name has the fake prefix. A failed job deletion ends the loop with the error; the entry
  is out of the table by then.
\<close>

fun snapshotLoop ::
  "Env \<Rightarrow> string \<Rightarrow> string list \<Rightarrow> WorkStatusTable \<Rightarrow> WorkStatusTable \<Rightarrow> ImageCache option \<Rightarrow>
     event list \<times> WorkStatusTable \<times> WorkStatusTable \<times> ImageCache option \<times> error option" where
  "snapshotLoop c imageCacheName [] tbl iwstatus imageCache =
     ([], tbl, iwstatus, imageCache, None)"
| "snapshotLoop c imageCacheName (job # jobs) tbl iwstatus imageCache =
     (case tbl job of
        None \<Rightarrow> snapshotLoop c imageCacheName jobs tbl iwstatus imageCache
      | Some iwres \<Rightarrow>
          (if Name (Imagecache (ImageWorkRequest iwres)) = imageCacheName then
             (if \<not> prefix fakeJobPrefix job then
                (case jobsDelete c job of
                   Some err \<Rightarrow>
                     ([DeleteJob job], tbl(job := None), iwstatus(job \<mapsto> iwres),
                      Some (Imagecache (ImageWorkRequest iwres)), Some err)
                 | None \<Rightarrow>
                     (case snapshotLoop c imageCacheName jobs (tbl(job := None))
                             (iwstatus(job \<mapsto> iwres))
                             (Some (Imagecache (ImageWorkRequest iwres))) of
                        (evs, r) \<Rightarrow> (DeleteJob job # evs, r)))
              else snapshotLoop c imageCacheName jobs (tbl(job := None))
                     (iwstatus(job \<mapsto> iwres)) (Some (Imagecache (ImageWorkRequest iwres))))
           else snapshotLoop c imageCacheName jobs tbl iwstatus imageCache))"

text \<open>
  The whole run. \<open>pollJobs\<close>, \<open>pendingJobs\<close> and \<open>snapshotJobs\<close> are the orders in which the
  three \<open>range\<close> loops visit the table. The run returns only if the poll does; every path
  after the poll ends with one send on \<open>errCh\<close>.
\<close>

definition updateImageCacheStatus ::
  "Env \<Rightarrow> string \<Rightarrow> string list \<Rightarrow> string list \<Rightarrow> string list \<Rightarrow> ImageManager \<Rightarrow>
     (event list \<times> ImageManager) option" where
  "updateImageCacheStatus c imageCacheName pollJobs pendingJobs snapshotJobs m =
     (case waitPoll (imagePullDeadlineDuration m) imageCacheName pollJobs
             (imageworkstatus m) of
        None \<Rightarrow> None
      | Some evs0 \<Rightarrow>
         (case updatePendingImageWorkResults c imageCacheName pendingJobs (imageworkstatus m) of
           (evs1, tbl1, Some err) \<Rightarrow>
             Some (evs0 @ evs1 @ [Send (Some err)], m\<lparr>imageworkstatus := tbl1\<rparr>)
         | (evs1, tbl1, None) \<Rightarrow>
             (case snapshotLoop c imageCacheName snapshotJobs tbl1 Map.empty None of
                (evs2, tbl2, iwstatus, imageCache, Some err) \<Rightarrow>
                  Some (evs0 @ evs1 @ Lock # evs2 @ [Unlock, Send (Some err)],
                        m\<lparr>imageworkstatus := tbl2\<rparr>)
              | (evs2, tbl2, iwstatus, imageCache, None) \<Rightarrow>
                  (case imageCache of
                     None \<Rightarrow>
                       Some (evs0 @ evs1 @ Lock # evs2 @
                               [Unlock, Send (Some NoImageCacheReference)],
                             m\<lparr>imageworkstatus := tbl2\<rparr>)
                   | Some ic \<Rightarrow>
                       (case MetaNamespaceKeyFunc c ic of
                          Inl err \<Rightarrow>
                            Some (evs0 @ evs1 @ Lock # evs2 @ [Unlock, Send (Some err)],
                                  m\<lparr>imageworkstatus := tbl2\<rparr>)
                        | Inr objKey \<Rightarrow>
                            Some (evs0 @ evs1 @ Lock # evs2 @ [Unlock, Send None],
                                  m\<lparr>imageworkstatus := tbl2,
                                    workqueue := workqueue m @
                                      [\<lparr>KeyWorkType = ImageCacheStatusUpdate,
                                        ObjKey = objKey, KeyStatus = Some iwstatus,
                                        OldImageCache = None\<rparr>]\<rparr>))))))"

subsection \<open>\<open>processNextWorkItem\<close>: the dispatcher\<close>

definition pullImage :: "Env \<Rightarrow> ImageManager \<Rightarrow> ImageWorkRequest \<Rightarrow> event list \<times> (error + Job)" where
  "pullImage c m iwr =
     (case newImagePullJob c (Imagecache iwr) (Image iwr) (Node iwr) (imagePullPolicy m) of
        Inl err \<Rightarrow> ([], Inl err)
      | Inr newjob \<Rightarrow>
          (case jobsCreate c newjob of
             Inl err \<Rightarrow> ([CreateJob (JobName newjob)], Inl err)
           | Inr job \<Rightarrow> ([CreateJob (JobName newjob)], Inr job)))"

definition deleteImage :: "Env \<Rightarrow> ImageManager \<Rightarrow> ImageWorkRequest \<Rightarrow> event list \<times> (error + Job)" where
  "deleteImage c m iwr =
     (case newImageDeleteJob c (Imagecache iwr) (Image iwr) (Node iwr)
             (ContainerRuntimeVersion iwr) (dockerClientImage m) of
        Inl err \<Rightarrow> ([], Inl err)
      | Inr newjob \<Rightarrow>
          (case jobsCreate c newjob of
             Inl err \<Rightarrow> ([CreateJob (JobName newjob)], Inl err)
           | Inr job \<Rightarrow> ([CreateJob (JobName newjob)], Inr job)))"

text \<open>
  One call of \<open>processNextWorkItem\<close>, given what \<open>imageworkqueue.Get\<close> returned. The
  deferred \<open>Done\<close> runs when the inner function returns, before \<open>HandleError\<close>. On every
  error return the inner function has called neither \<open>Forget\<close> nor \<open>AddRateLimited\<close>.
  For a flush item (no image, no node) it makes the channel, starts the run and returns.
\<close>

definition processNextWorkItem ::
  "Env \<Rightarrow> queue_item \<Rightarrow> bool \<Rightarrow> ImageManager \<Rightarrow> event list \<times> ImageManager \<times> bool" where
  "processNextWorkItem c obj shutdown m =
     (if shutdown then ([], m, False)
      else case obj of
        OtherItem s \<Rightarrow> ([QForget obj, HandleError UnexpectedTypeInWorkqueue, QDone obj], m, True)
      | IWR iwr \<Rightarrow>
          (if Image iwr = '''' \<and> Node iwr = None then
             ([QForget obj, MakeChan, Go (Name (Imagecache iwr)), QDone obj], m, True)
           else if WorkType iwr = ImageCachePurge then
             (case deleteImage c m iwr of
                (evs, Inl err) \<Rightarrow>
                  (evs @ [QDone obj, HandleError (ErrorDeletingImage (Image iwr) err)], m, True)
              | (evs, Inr job) \<Rightarrow>
                  (evs @ [Lock, Unlock, QForget obj, QDone obj],
                   m\<lparr>imageworkstatus := (imageworkstatus m)(JobName job \<mapsto>
                        \<lparr>ImageWorkRequest = iwr, Status = ImageWorkResultStatusJobCreated,
                         Reason = '''', Message = ''''\<rparr>)\<rparr>,
                   True))
           else
             (case checkIfImageNeedsToBePulled c (imagePullPolicy m) (Image iwr) (Node iwr) of
                Inl err \<Rightarrow>
                  ([QDone obj, HandleError (ErrorCheckIfImageNeedsToBePulled err)], m, True)
              | Inr pull \<Rightarrow>
                  (if pull then
                     (case pullImage c m iwr of
                        (evs, Inl err) \<Rightarrow>
                          (evs @ [QDone obj, HandleError (ErrorPullingImage (Image iwr) err)],
                           m, True)
                      | (evs, Inr job) \<Rightarrow>
                          (evs @ [Lock, Unlock, QForget obj, QDone obj],
                           m\<lparr>imageworkstatus := (imageworkstatus m)(JobName job \<mapsto>
                                \<lparr>ImageWorkRequest = iwr,
                                 Status = ImageWorkResultStatusJobCreated,
                                 Reason = '''', Message = ''''\<rparr>)\<rparr>,
                           True))
                   else
                     ([Lock, Unlock, QForget obj, QDone obj],
                      m\<lparr>imageworkstatus := (imageworkstatus m)(fakeJobPrefix @ randomSuffix c \<mapsto>
                           \<lparr>ImageWorkRequest = iwr,
                            Status = ImageWorkResultStatusAlreadyPulled,
                            Reason = '''', Message = ''''\<rparr>)\<rparr>,
                      True)))))"

subsection \<open>Observations on event lists\<close>

text \<open>The values sent on the completion channel, in order.\<close>

fun sends :: "event list \<Rightarrow> error option list" where
  "sends [] = []"
| "sends (Send r # es) = r # sends es"
| "sends (e # es) = sends es"

text \<open>
  Events that leave the process or suspend the goroutine: a request to the API server,
  a sleep, a channel operation. Reading the informer's lister (\<open>ListPods\<close>) is a local
  read and is not counted.
\<close>

fun blocking :: "event \<Rightarrow> bool" where
  "blocking Sleep = True"
| "blocking (ListEvents p) = True"
| "blocking (DeleteJob j) = True"
| "blocking (CreateJob j) = True"
| "blocking (Send r) = True"
| "blocking Recv = True"
| "blocking e = False"

text \<open>The sleeps and channel operations alone.\<close>

fun waiting :: "event \<Rightarrow> bool" where
  "waiting Sleep = True"
| "waiting (Send r) = True"
| "waiting Recv = True"
| "waiting e = False"

text \<open>
  The state of \<open>m.lock\<close> as one goroutine sees its own use of it.
\<close>

datatype lockState = Unlocked | ReadLocked | WriteLocked

text \<open>
  \<open>lockScoped bad st evs\<close>: running \<open>evs\<close> from the lock state \<open>st\<close>, the lock is taken only
  when it is not held, released only by the release that matches how it was taken, no
  event in \<open>bad\<close> happens while it is held, and it is not held at the end.
\<close>

fun lockScoped :: "(event \<Rightarrow> bool) \<Rightarrow> lockState \<Rightarrow> event list \<Rightarrow> bool" where
  "lockScoped bad st [] = (st = Unlocked)"
| "lockScoped bad st (Lock # es) = (st = Unlocked \<and> lockScoped bad WriteLocked es)"
| "lockScoped bad st (Unlock # es) = (st = WriteLocked \<and> lockScoped bad Unlocked es)"
| "lockScoped bad st (RLock # es) = (st = Unlocked \<and> lockScoped bad ReadLocked es)"
| "lockScoped bad st (RUnlock # es) = (st = ReadLocked \<and> lockScoped bad Unlocked es)"
| "lockScoped bad st (e # es) = (\<not> (st \<noteq> Unlocked \<and> bad e) \<and> lockScoped bad st es)"

text \<open>Every event: with it, \<open>lockScoped\<close> says that nothing at all happens under the lock.\<close>

definition anyEvent :: "event \<Rightarrow> bool" where
  "anyEvent e = True"

text \<open>The events the two loops of the reconciler perform.\<close>

definition clusterCall :: "event \<Rightarrow> bool" where
  "clusterCall e =
     (case e of ListPods j \<Rightarrow> True | ListEvents p \<Rightarrow> True | DeleteJob j \<Rightarrow> True
      | _ \<Rightarrow> False)"

subsection \<open>Concrete clusters, pods and tables\<close>

definition cache1 :: ImageCache where
  "cache1 = \<lparr>Namespace = ''kube-fledged'', Name = ''cache1''\<rparr>"

definition cache2 :: ImageCache where
  "cache2 = \<lparr>Namespace = ''kube-fledged'', Name = ''cache2''\<rparr>"

definition node1 :: Node where
  "node1 = \<lparr>NodeLabels = [(''kubernetes.io/hostname'', ''node1'')]\<rparr>"

definition pullRequest :: ImageWorkRequest where
  "pullRequest =
     \<lparr>Image = ''nginx:1.21'', Node = Some node1, ContainerRuntimeVersion = ''docker://19.3'',
      WorkType = ImageCacheCreate, Imagecache = cache1\<rparr>"

definition purgeRequest :: ImageWorkRequest where
  "purgeRequest = pullRequest\<lparr>WorkType := ImageCachePurge\<rparr>"

definition otherRequest :: ImageWorkRequest where
  "otherRequest = pullRequest\<lparr>Imagecache := cache2\<rparr>"

text \<open>The flush item of \<open>cache1\<close>: no image and no node.\<close>

definition flushRequest :: ImageWorkRequest where
  "flushRequest =
     \<lparr>Image = '''', Node = None, ContainerRuntimeVersion = '''',
      WorkType = ImageCacheCreate, Imagecache = cache1\<rparr>"

definition entry :: "string \<Rightarrow> ImageWorkRequest \<Rightarrow> ImageWorkResult" where
  "entry st iwr = \<lparr>ImageWorkRequest = iwr, Status = st, Reason = '''', Message = ''''\<rparr>"

definition manager :: "WorkStatusTable \<Rightarrow> ImageManager" where
  "manager tbl =
     \<lparr>imageworkstatus = tbl, workqueue = [], imagePullDeadlineDuration = Suc 0,
      dockerClientImage = ''docker:20.10'', imagePullPolicy = ''IfNotPresent''\<rparr>"

definition examplePod :: "string \<Rightarrow> string \<Rightarrow> string \<Rightarrow> string \<Rightarrow> ContainerStatus list \<Rightarrow> Pod" where
  "examplePod name job rv phase statuses =
     \<lparr>PodName = name, Labels = [''job-name'' \<mapsto> job], ResourceVersion = rv,
      PodStatus = \<lparr>Phase = phase, ContainerStatuses = statuses\<rparr>\<rparr>"

definition waitingStatus :: "string \<Rightarrow> string \<Rightarrow> ContainerStatus" where
  "waitingStatus r msg =
     \<lparr>State = \<lparr>Waiting = Some \<lparr>WaitingReason = r, WaitingMessage = msg\<rparr>,
               Terminated = None\<rparr>\<rparr>"

definition terminatedStatus :: "string \<Rightarrow> string \<Rightarrow> ContainerStatus" where
  "terminatedStatus r msg =
     \<lparr>State = \<lparr>Waiting = None,
               Terminated = Some \<lparr>TerminatedReason = r, TerminatedMessage = msg\<rparr>\<rparr>\<rparr>"

text \<open>A cluster where every call succeeds, no job has a pod and no pod has an event.\<close>

definition calmCluster :: Env where
  "calmCluster =
     \<lparr>podsList = (\<lambda>job. Inr []),
      eventsList = (\<lambda>p. Inr []),
      jobsDelete = (\<lambda>job. None),
      jobsCreate = (\<lambda>job. Inr job),
      MetaNamespaceKeyFunc = (\<lambda>ic. Inr (Namespace ic @ ''/'' @ Name ic)),
      checkIfImageNeedsToBePulled = (\<lambda>policy image node. Inr True),
      newImagePullJob = (\<lambda>ic image node policy. Inr \<lparr>JobName = ''cache1-pull-x2x9f''\<rparr>),
      newImageDeleteJob = (\<lambda>ic image node runtime helper. Inr \<lparr>JobName = ''cache1-del-k8s2p''\<rparr>),
      randomSuffix = ''7gq4z''\<rparr>"

text \<open>The job deletion fails.\<close>

definition deleteFails :: Env where
  "deleteFails = calmCluster\<lparr>jobsDelete := (\<lambda>job. Some (ApiError ''jobs delete failed''))\<rparr>"

text \<open>The job creation fails.\<close>

definition createFails :: Env where
  "createFails = calmCluster\<lparr>jobsCreate := (\<lambda>job. Inl (ApiError ''jobs create failed''))\<rparr>"

text \<open>
  \<open>job3\<close> has one pod, still pending with its one container waiting on the image; the pod
  has one failure event.
\<close>

definition pendingCluster :: Env where
  "pendingCluster =
     calmCluster\<lparr>podsList :=
         (\<lambda>job. if job = ''job3''
                then Inr [examplePod ''pod3'' ''job3'' ''7'' PodPending
                            [waitingStatus ''ImagePullBackOff'' ''Back-off pulling image'']]
                else Inr []),
       eventsList := (\<lambda>p. Inr [\<lparr>EventMessage = ''Failed to pull image''\<rparr>])\<rparr>"

text \<open>\<open>job3\<close> has one pod, which is running.\<close>

definition runningCluster :: Env where
  "runningCluster =
     calmCluster\<lparr>podsList :=
         (\<lambda>job. if job = ''job3'' then Inr [examplePod ''pod3'' ''job3'' ''7'' PodRunning []]
                else Inr [])\<rparr>"

text \<open>One entry, resolved by the observer.\<close>

definition oneResolved :: WorkStatusTable where
  "oneResolved = [''job1'' \<mapsto> entry ImageWorkResultStatusSucceeded pullRequest]"

text \<open>The entry belongs to another image cache.\<close>

definition otherCache :: WorkStatusTable where
  "otherCache = [''job9'' \<mapsto> entry ImageWorkResultStatusSucceeded otherRequest]"

text \<open>Two entries resolved by the observer, a third still pending at the deadline.\<close>

definition twoResolvedOnePending :: WorkStatusTable where
  "twoResolvedOnePending =
     [''job1'' \<mapsto> entry ImageWorkResultStatusSucceeded pullRequest,
      ''job2'' \<mapsto> entry ImageWorkResultStatusSucceeded pullRequest,
      ''job3'' \<mapsto> entry ImageWorkResultStatusJobCreated pullRequest]"

text \<open>Two pending deletions; in \<open>runningCluster\<close> the first has a pod and the second has none.\<close>

definition twoPending :: WorkStatusTable where
  "twoPending =
     [''job3'' \<mapsto> entry ImageWorkResultStatusJobCreated purgeRequest,
      ''job4'' \<mapsto> entry ImageWorkResultStatusJobCreated purgeRequest]"

text \<open>Two entries resolved by the observer.\<close>

definition twoResolved :: WorkStatusTable where
  "twoResolved =
     [''job1'' \<mapsto> entry ImageWorkResultStatusSucceeded pullRequest,
      ''job2'' \<mapsto> entry ImageWorkResultStatusSucceeded pullRequest]"

text \<open>One pending deletion.\<close>

definition onePending :: WorkStatusTable where
  "onePending = [''job3'' \<mapsto> entry ImageWorkResultStatusJobCreated purgeRequest]"

section \<open>Lemmas on the model\<close>

subsection \<open>The forced resolution\<close>

lemma status_consts_distinct:
  "ImageWorkResultStatusFailed \<noteq> ImageWorkResultStatusJobCreated"
  "ImageWorkResultStatusSucceeded \<noteq> ImageWorkResultStatusJobCreated"
  "ImageWorkResultStatusAlreadyPulled \<noteq> ImageWorkResultStatusJobCreated"
  by (simp_all add: ImageWorkResultStatusFailed_def ImageWorkResultStatusJobCreated_def
      ImageWorkResultStatusSucceeded_def ImageWorkResultStatusAlreadyPulled_def)

lemma pendingReason_keeps:
  "Status (pendingReason pod iw) = Status iw"
  "ImageWorkRequest (pendingReason pod iw) = ImageWorkRequest iw"
  by (simp_all add: pendingReason_def Let_def split: list.splits option.splits)

lemma forceResolve_Inr:
  assumes "forceResolve c job iw = (evs, Inr iw')"
  shows "\<exists>pod. podsList c job = Inr [pod] \<and>
           Status iw' = ImageWorkResultStatusFailed \<and>
           ImageWorkRequest iw' = ImageWorkRequest iw \<and>
           Reason iw' = Reason (pendingReason pod (iw\<lparr>Status := ImageWorkResultStatusFailed\<rparr>))"
  using assms
  by (auto simp: forceResolve_def Let_def pendingReason_keeps
      split: sum.splits list.splits if_splits)

lemma forceResolve_status:
  "forceResolve c job iw = (evs, Inr iw') \<Longrightarrow> Status iw' = ImageWorkResultStatusFailed"
  by (drule forceResolve_Inr) blast

lemma pendingLoop_cases:
  "pendingLoop c n ks tbl = (evs, tbl', r) \<Longrightarrow>
     tbl' job = tbl job \<or>
     (\<exists>iw es iw'. tbl job = Some iw \<and> Name (Imagecache (ImageWorkRequest iw)) = n \<and>
        Status iw = ImageWorkResultStatusJobCreated \<and> job \<in> set ks \<and>
        forceResolve c job iw = (es, Inr iw') \<and> tbl' job = Some iw')"
proof (induction ks arbitrary: tbl evs tbl' r)
  case Nil
  then show ?case by simp
next
  case (Cons k ks)
  show ?case
  proof (cases "tbl k")
    case None
    with Cons.prems have "pendingLoop c n ks tbl = (evs, tbl', r)" by simp
    from Cons.IH[OF this] show ?thesis by auto
  next
    case (Some iwk)
    show ?thesis
    proof (cases "Name (Imagecache (ImageWorkRequest iwk)) = n \<and>
                  Status iwk = ImageWorkResultStatusJobCreated")
      case False
      with Some Cons.prems have "pendingLoop c n ks tbl = (evs, tbl', r)" by (auto split: if_splits)
      from Cons.IH[OF this] show ?thesis by auto
    next
      case True
      obtain es res where fr: "forceResolve c k iwk = (es, res)" by (cases "forceResolve c k iwk")
      show ?thesis
      proof (cases res)
        case (Inl err)
        with True Some fr Cons.prems have "tbl' = tbl" by simp
        then show ?thesis by simp
      next
        case (Inr iwk')
        obtain evs2 r2 where rec: "pendingLoop c n ks (tbl(k \<mapsto> iwk')) = (evs2, tbl', r2)"
          using True Some fr Inr Cons.prems
          by (cases "pendingLoop c n ks (tbl(k \<mapsto> iwk'))") auto
        have st: "Status iwk' = ImageWorkResultStatusFailed"
          using fr Inr forceResolve_status by blast
        from Cons.IH[OF rec, of ] have ih:
          "tbl' job = (tbl(k \<mapsto> iwk')) job \<or>
           (\<exists>iw es iw'. (tbl(k \<mapsto> iwk')) job = Some iw \<and> Name (Imagecache (ImageWorkRequest iw)) = n \<and>
              Status iw = ImageWorkResultStatusJobCreated \<and> job \<in> set ks \<and>
              forceResolve c job iw = (es, Inr iw') \<and> tbl' job = Some iw')" .
        show ?thesis
        proof (cases "job = k")
          case True
          with ih st status_consts_distinct(1) have "tbl' k = Some iwk'" by auto
          with True \<open>Name (Imagecache (ImageWorkRequest iwk)) = n \<and> Status iwk = ImageWorkResultStatusJobCreated\<close>
            Some fr Inr show ?thesis by auto
        next
          case False
          with ih show ?thesis by auto
        qed
      qed
    qed
  qed
qed

lemma pendingLoop_success:
  "pendingLoop c n ks tbl = (evs, tbl', None) \<Longrightarrow> job \<in> set ks \<Longrightarrow>
   tbl job = Some iw \<Longrightarrow> Name (Imagecache (ImageWorkRequest iw)) = n \<Longrightarrow>
   Status iw = ImageWorkResultStatusJobCreated \<Longrightarrow>
   \<exists>es iw'. forceResolve c job iw = (es, Inr iw') \<and> tbl' job = Some iw'"
proof (induction ks arbitrary: tbl evs tbl')
  case Nil
  then show ?case by simp
next
  case (Cons k ks)
  show ?case
  proof (cases "tbl k")
    case None
    with Cons.prems have "pendingLoop c n ks tbl = (evs, tbl', None)" "job \<in> set ks" by auto
    from Cons.IH[OF this Cons.prems(3-5)] show ?thesis .
  next
    case (Some iwk)
    show ?thesis
    proof (cases "Name (Imagecache (ImageWorkRequest iwk)) = n \<and>
                  Status iwk = ImageWorkResultStatusJobCreated")
      case False
      with Some Cons.prems have "pendingLoop c n ks tbl = (evs, tbl', None)" "job \<in> set ks" by (auto split: if_splits)
      from Cons.IH[OF this Cons.prems(3-5)] show ?thesis .
    next
      case True
      obtain es res where fr: "forceResolve c k iwk = (es, res)" by (cases "forceResolve c k iwk")
      show ?thesis
      proof (cases res)
        case (Inl err)
        with True Some fr Cons.prems show ?thesis by simp
      next
        case (Inr iwk')
        obtain evs2 where rec: "pendingLoop c n ks (tbl(k \<mapsto> iwk')) = (evs2, tbl', None)"
          using True Some fr Inr Cons.prems(1)
          by (cases "pendingLoop c n ks (tbl(k \<mapsto> iwk'))") auto
        have st: "Status iwk' = ImageWorkResultStatusFailed"
          using fr Inr forceResolve_status by blast
        show ?thesis
        proof (cases "job = k")
          case True
          from pendingLoop_cases[OF rec, of k] st status_consts_distinct(1)
          have "tbl' k = Some iwk'" by auto
          with True Some Cons.prems(3) fr Inr show ?thesis by auto
        next
          case False
          with Cons.prems have "job \<in> set ks" "(tbl(k \<mapsto> iwk')) job = Some iw" by auto
          from Cons.IH[OF rec this Cons.prems(4,5)] show ?thesis .
        qed
      qed
    qed
  qed
qed

subsection \<open>Events and the snapshot loop\<close>

lemma sends_append: "sends (xs @ ys) = sends xs @ sends ys"
  by (induction xs rule: sends.induct) simp_all

lemma sends_clusterCalls: "\<forall>e \<in> set evs. clusterCall e \<Longrightarrow> sends evs = []"
  by (induction evs rule: sends.induct) (simp_all add: clusterCall_def)

lemma forceResolve_events:
  "forceResolve c job iw = (evs, res) \<Longrightarrow> \<forall>e \<in> set evs. clusterCall e"
  by (auto simp: forceResolve_def Let_def clusterCall_def split: sum.splits list.splits if_splits)

lemma pendingLoop_events:
  "pendingLoop c n ks tbl = (evs, tbl', r) \<Longrightarrow> \<forall>e \<in> set evs. clusterCall e"
proof (induction ks arbitrary: tbl evs tbl' r)
  case Nil
  then show ?case by simp
next
  case (Cons k ks)
  show ?case
  proof (cases "tbl k")
    case None
    with Cons show ?thesis by simp
  next
    case (Some iwk)
    obtain es res where fr: "forceResolve c k iwk = (es, res)" by (cases "forceResolve c k iwk")
    note fe = forceResolve_events[OF fr]
    show ?thesis
    proof (cases res)
      case (Inl err)
      with Cons Some fr fe show ?thesis by (auto split: if_splits)
    next
      case (Inr iwk')
      obtain evs2 t2 r2 where rec: "pendingLoop c n ks (tbl(k \<mapsto> iwk')) = (evs2, t2, r2)"
        by (cases "pendingLoop c n ks (tbl(k \<mapsto> iwk'))") auto
      from Cons.IH[OF rec] have "\<forall>e \<in> set evs2. clusterCall e" .
      with Cons Some fr fe Inr rec show ?thesis by (auto split: if_splits)
    qed
  qed
qed

lemma snapshotLoop_events:
  "snapshotLoop c n ks tbl snap ic = (evs, res) \<Longrightarrow> \<forall>e \<in> set evs. clusterCall e"
proof (induction ks arbitrary: tbl snap ic evs res)
  case Nil
  then show ?case by simp
next
  case (Cons k ks)
  show ?case
  proof (cases "tbl k")
    case None
    with Cons show ?thesis by simp
  next
    case (Some iwk)
    let ?rec = "snapshotLoop c n ks (tbl(k := None)) (snap(k \<mapsto> iwk))
                  (Some (Imagecache (ImageWorkRequest iwk)))"
    have ih: "\<forall>e \<in> set (fst ?rec). clusterCall e"
      by (rule Cons.IH[OF surjective_pairing])
    have dj: "clusterCall (DeleteJob k)" by (simp add: clusterCall_def)
    show ?thesis
    proof (cases "Name (Imagecache (ImageWorkRequest iwk)) = n")
      case False
      with Some Cons show ?thesis by simp
    next
      case True
      show ?thesis
      proof (cases "prefix fakeJobPrefix k")
        case True
        with \<open>Name (Imagecache (ImageWorkRequest iwk)) = n\<close> Some Cons.prems ih
        show ?thesis by simp
      next
        case False
        show ?thesis
        proof (cases "jobsDelete c k")
          case None
          with False \<open>Name (Imagecache (ImageWorkRequest iwk)) = n\<close> Some Cons.prems
          have "evs = DeleteJob k # fst ?rec" by (simp split: prod.splits)
          with ih dj show ?thesis by simp
        next
          case (Some err)
          with False \<open>Name (Imagecache (ImageWorkRequest iwk)) = n\<close> \<open>tbl k = Some iwk\<close> Cons.prems
          have "evs = [DeleteJob k]" by simp
          with dj show ?thesis by simp
        qed
      qed
    qed
  qed
qed

text \<open>What the snapshot loop does to one key, whatever the outcome.\<close>

lemma snapshotLoop_cases:
  "snapshotLoop c n ks tbl snap ic = (evs, tbl', snap', ic', r) \<Longrightarrow>
     (tbl' job = tbl job \<and> snap' job = snap job) \<or>
     (\<exists>iw. tbl job = Some iw \<and> Name (Imagecache (ImageWorkRequest iw)) = n \<and> job \<in> set ks \<and>
        tbl' job = None \<and> snap' job = Some iw)"
proof (induction ks arbitrary: tbl snap ic evs)
  case Nil
  then show ?case by simp
next
  case (Cons k ks)
  show ?case
  proof (cases "tbl k")
    case None
    with Cons.prems have "snapshotLoop c n ks tbl snap ic = (evs, tbl', snap', ic', r)" by simp
    from Cons.IH[OF this] show ?thesis by auto
  next
    case (Some iwk)
    show ?thesis
    proof (cases "Name (Imagecache (ImageWorkRequest iwk)) = n")
      case False
      with Some Cons.prems have "snapshotLoop c n ks tbl snap ic = (evs, tbl', snap', ic', r)" by simp
      from Cons.IH[OF this] show ?thesis by auto
    next
      case True
      let ?rec = "snapshotLoop c n ks (tbl(k := None)) (snap(k \<mapsto> iwk)) (Some (Imagecache (ImageWorkRequest iwk)))"
      show ?thesis
      proof (cases "\<not> prefix fakeJobPrefix k \<and> jobsDelete c k \<noteq> None")
        case True
        with \<open>Name (Imagecache (ImageWorkRequest iwk)) = n\<close> Some Cons.prems
        have "tbl' = tbl(k := None)" "snap' = snap(k \<mapsto> iwk)" by auto
        with Some \<open>Name (Imagecache (ImageWorkRequest iwk)) = n\<close> show ?thesis by auto
      next
        case False
        then obtain evs2 where rec: "?rec = (evs2, tbl', snap', ic', r)"
          using True Some Cons.prems by (cases ?rec) (auto split: if_splits)
        from Cons.IH[OF rec] have ih:
          "(tbl' job = (tbl(k := None)) job \<and> snap' job = (snap(k \<mapsto> iwk)) job) \<or>
           (\<exists>iw. (tbl(k := None)) job = Some iw \<and> Name (Imagecache (ImageWorkRequest iw)) = n \<and> job \<in> set ks \<and>
             tbl' job = None \<and> snap' job = Some iw)" .
        show ?thesis
        proof (cases "job = k")
          case True
          with ih Some \<open>Name (Imagecache (ImageWorkRequest iwk)) = n\<close> show ?thesis by auto
        next
          case False
          with ih show ?thesis by auto
        qed
      qed
    qed
  qed
qed

text \<open>A loop that ends without an error has moved every entry of the image cache it visited.\<close>

lemma snapshotLoop_success:
  "snapshotLoop c n ks tbl snap ic = (evs, tbl', snap', ic', None) \<Longrightarrow> job \<in> set ks \<Longrightarrow>
   tbl job = Some iw \<Longrightarrow> Name (Imagecache (ImageWorkRequest iw)) = n \<Longrightarrow>
   tbl' job = None \<and> snap' job = Some iw"
proof (induction ks arbitrary: tbl snap ic evs)
  case Nil
  then show ?case by simp
next
  case (Cons k ks)
  show ?case
  proof (cases "tbl k")
    case None
    with Cons.prems have "snapshotLoop c n ks tbl snap ic = (evs, tbl', snap', ic', None)" "job \<in> set ks"
      by auto
    from Cons.IH[OF this Cons.prems(3,4)] show ?thesis .
  next
    case (Some iwk)
    show ?thesis
    proof (cases "Name (Imagecache (ImageWorkRequest iwk)) = n")
      case False
      with Some Cons.prems have "snapshotLoop c n ks tbl snap ic = (evs, tbl', snap', ic', None)" "job \<in> set ks"
        by auto
      from Cons.IH[OF this Cons.prems(3,4)] show ?thesis .
    next
      case True
      let ?rec = "snapshotLoop c n ks (tbl(k := None)) (snap(k \<mapsto> iwk)) (Some (Imagecache (ImageWorkRequest iwk)))"
      obtain evs2 where rec: "?rec = (evs2, tbl', snap', ic', None)"
        using True Some Cons.prems(1) by (cases ?rec) (auto split: if_splits option.splits)
      show ?thesis
      proof (cases "job = k")
        case True
        from snapshotLoop_cases[OF rec, of k] have "tbl' k = None \<and> snap' k = Some iwk" by auto
        with True Some Cons.prems(3) show ?thesis by simp
      next
        case False
        with Cons.prems have "job \<in> set ks" "(tbl(k := None)) job = Some iw" by auto
        from Cons.IH[OF rec this Cons.prems(4)] show ?thesis .
      qed
    qed
  qed
qed

lemma snapshotLoop_none:
  "\<forall>job iw. tbl job = Some iw \<longrightarrow> Name (Imagecache (ImageWorkRequest iw)) \<noteq> n \<Longrightarrow>
   snapshotLoop c n ks tbl snap ic = ([], tbl, snap, ic, None)"
  by (induction ks) (auto split: option.splits)

lemma pendingLoop_none:
  "\<forall>job iw. tbl job = Some iw \<longrightarrow> Name (Imagecache (ImageWorkRequest iw)) \<noteq> n \<Longrightarrow>
   pendingLoop c n ks tbl = ([], tbl, None)"
  by (induction ks) (auto split: option.splits)

lemma pendingLoop_dom:
  "pendingLoop c n ks tbl = (evs, tbl', r) \<Longrightarrow> dom tbl' = dom tbl"
proof -
  assume a: "pendingLoop c n ks tbl = (evs, tbl', r)"
  have "\<And>job. (tbl' job = None) = (tbl job = None)"
    using pendingLoop_cases[OF a] by (metis option.distinct(1))
  then show ?thesis by (auto simp: dom_def)
qed



lemma pendingLoop_keeps_request:
  assumes p: "pendingLoop c n ks tbl = (evs, tbl', r)" and e: "tbl job = Some iw"
  shows "\<exists>iw'. tbl' job = Some iw' \<and> ImageWorkRequest iw' = ImageWorkRequest iw"
  using pendingLoop_cases[OF p, of job] e forceResolve_Inr by fastforce

lemma pendingLoop_frame:
  assumes p: "pendingLoop c n ks tbl = (evs, tbl', r)" and e: "tbl job = Some iw"
    and st: "Status iw \<noteq> ImageWorkResultStatusJobCreated"
  shows "tbl' job = Some iw"
  using pendingLoop_cases[OF p, of job] e st by auto

subsection \<open>Where a loop stops\<close>

text \<open>
  A pass that ends with an error stopped at the first key, in the order of the loop, whose
  entry is a pending one of the image cache and whose resolution fails. The entries of that
  kind before it are resolved; every key that is not before it is as it was.
\<close>

lemma pendingLoop_error:
  "pendingLoop c n ks tbl = (evs, tbl', Some err) \<Longrightarrow>
   \<exists>pre j post a es.
      ks = pre @ j # post \<and> j \<notin> set pre \<and> tbl j = Some a \<and>
      Name (Imagecache (ImageWorkRequest a)) = n \<and>
      Status a = ImageWorkResultStatusJobCreated \<and>
      forceResolve c j a = (es, Inl err) \<and>
      (\<forall>k b. k \<in> set pre \<and> tbl k = Some b \<and> Name (Imagecache (ImageWorkRequest b)) = n \<and>
             Status b = ImageWorkResultStatusJobCreated \<longrightarrow>
             (\<exists>es' b'. forceResolve c k b = (es', Inr b') \<and> tbl' k = Some b')) \<and>
      (\<forall>k. k \<notin> set pre \<longrightarrow> tbl' k = tbl k)"
proof (induction ks arbitrary: tbl evs)
  case Nil
  then show ?case by simp
next
  case (Cons k ks)
  let ?goal = "\<lambda>t. \<exists>pre j post a es.
      k # ks = pre @ j # post \<and> j \<notin> set pre \<and> t j = Some a \<and>
      Name (Imagecache (ImageWorkRequest a)) = n \<and>
      Status a = ImageWorkResultStatusJobCreated \<and>
      forceResolve c j a = (es, Inl err) \<and>
      (\<forall>x b. x \<in> set pre \<and> t x = Some b \<and> Name (Imagecache (ImageWorkRequest b)) = n \<and>
             Status b = ImageWorkResultStatusJobCreated \<longrightarrow>
             (\<exists>es' b'. forceResolve c x b = (es', Inr b') \<and> tbl' x = Some b')) \<and>
      (\<forall>x. x \<notin> set pre \<longrightarrow> tbl' x = t x)"
  have skip: "?goal tbl"
    if rec: "pendingLoop c n ks tbl = (evs, tbl', Some err)"
      and nk: "\<forall>b. tbl k = Some b \<longrightarrow> \<not> (Name (Imagecache (ImageWorkRequest b)) = n \<and>
                 Status b = ImageWorkResultStatusJobCreated)"
  proof -
    from Cons.IH[OF rec] obtain pre j post a es where
      p: "ks = pre @ j # post" "j \<notin> set pre" "tbl j = Some a"
         "Name (Imagecache (ImageWorkRequest a)) = n"
         "Status a = ImageWorkResultStatusJobCreated"
         "forceResolve c j a = (es, Inl err)"
         "\<forall>x b. x \<in> set pre \<and> tbl x = Some b \<and> Name (Imagecache (ImageWorkRequest b)) = n \<and>
             Status b = ImageWorkResultStatusJobCreated \<longrightarrow>
             (\<exists>es' b'. forceResolve c x b = (es', Inr b') \<and> tbl' x = Some b')"
         "\<forall>x. x \<notin> set pre \<longrightarrow> tbl' x = tbl x"
      by blast
    have jk: "j \<noteq> k" using p(3,4,5) nk by auto
    have "k # ks = (k # pre) @ j # post" using p(1) by simp
    moreover have "j \<notin> set (k # pre)" using p(2) jk by simp
    moreover have "\<forall>x b. x \<in> set (k # pre) \<and> tbl x = Some b \<and>
             Name (Imagecache (ImageWorkRequest b)) = n \<and>
             Status b = ImageWorkResultStatusJobCreated \<longrightarrow>
             (\<exists>es' b'. forceResolve c x b = (es', Inr b') \<and> tbl' x = Some b')"
      using p(7) nk by auto
    moreover have "\<forall>x. x \<notin> set (k # pre) \<longrightarrow> tbl' x = tbl x" using p(8) by simp
    ultimately show ?thesis using p(3,4,5,6) by blast
  qed
  show ?case
  proof (cases "tbl k")
    case None
    with Cons.prems have "pendingLoop c n ks tbl = (evs, tbl', Some err)" by simp
    from skip[OF this] None show ?thesis by simp
  next
    case (Some iwk)
    show ?thesis
    proof (cases "Name (Imagecache (ImageWorkRequest iwk)) = n \<and>
                  Status iwk = ImageWorkResultStatusJobCreated")
      case False
      with Some Cons.prems have "pendingLoop c n ks tbl = (evs, tbl', Some err)"
        by (auto split: if_splits)
      from skip[OF this] Some False show ?thesis by simp
    next
      case True
      obtain es res where fr: "forceResolve c k iwk = (es, res)"
        by (cases "forceResolve c k iwk")
      show ?thesis
      proof (cases res)
        case (Inl e)
        with True Some fr Cons.prems have "tbl' = tbl" "e = err" by simp_all
        with True Some fr Inl have
          "k # ks = [] @ k # ks \<and> k \<notin> set [] \<and> tbl k = Some iwk \<and>
           Name (Imagecache (ImageWorkRequest iwk)) = n \<and>
           Status iwk = ImageWorkResultStatusJobCreated \<and>
           forceResolve c k iwk = (es, Inl err) \<and>
           (\<forall>x b. x \<in> set [] \<and> tbl x = Some b \<and> Name (Imagecache (ImageWorkRequest b)) = n \<and>
             Status b = ImageWorkResultStatusJobCreated \<longrightarrow>
             (\<exists>es' b'. forceResolve c x b = (es', Inr b') \<and> tbl' x = Some b')) \<and>
           (\<forall>x. x \<notin> set [] \<longrightarrow> tbl' x = tbl x)" by simp
        then show ?thesis by blast
      next
        case (Inr iwk')
        obtain evs2 where rec: "pendingLoop c n ks (tbl(k \<mapsto> iwk')) = (evs2, tbl', Some err)"
          using True Some fr Inr Cons.prems
          by (cases "pendingLoop c n ks (tbl(k \<mapsto> iwk'))") auto
        have st: "Status iwk' \<noteq> ImageWorkResultStatusJobCreated"
          using fr Inr forceResolve_status status_consts_distinct(1) by metis
        have kept: "tbl' k = Some iwk'"
          using pendingLoop_frame[OF rec _ st, of k] by simp
        from Cons.IH[OF rec] obtain pre j post a es2 where
          p: "ks = pre @ j # post" "j \<notin> set pre" "(tbl(k \<mapsto> iwk')) j = Some a"
             "Name (Imagecache (ImageWorkRequest a)) = n"
             "Status a = ImageWorkResultStatusJobCreated"
             "forceResolve c j a = (es2, Inl err)"
             "\<forall>x b. x \<in> set pre \<and> (tbl(k \<mapsto> iwk')) x = Some b \<and>
                 Name (Imagecache (ImageWorkRequest b)) = n \<and>
                 Status b = ImageWorkResultStatusJobCreated \<longrightarrow>
                 (\<exists>es' b'. forceResolve c x b = (es', Inr b') \<and> tbl' x = Some b')"
             "\<forall>x. x \<notin> set pre \<longrightarrow> tbl' x = (tbl(k \<mapsto> iwk')) x"
          by blast
        have jk: "j \<noteq> k" using p(3,5) st by auto
        have "k # ks = (k # pre) @ j # post" using p(1) by simp
        moreover have "j \<notin> set (k # pre)" using p(2) jk by simp
        moreover have "tbl j = Some a" using p(3) jk by simp
        moreover have "\<forall>x b. x \<in> set (k # pre) \<and> tbl x = Some b \<and>
             Name (Imagecache (ImageWorkRequest b)) = n \<and>
             Status b = ImageWorkResultStatusJobCreated \<longrightarrow>
             (\<exists>es' b'. forceResolve c x b = (es', Inr b') \<and> tbl' x = Some b')"
        proof (intro allI impI)
          fix x b
          assume h: "x \<in> set (k # pre) \<and> tbl x = Some b \<and>
             Name (Imagecache (ImageWorkRequest b)) = n \<and>
             Status b = ImageWorkResultStatusJobCreated"
          show "\<exists>es' b'. forceResolve c x b = (es', Inr b') \<and> tbl' x = Some b'"
          proof (cases "x = k")
            case True
            with h Some have "b = iwk" by simp
            with True fr Inr kept show ?thesis by auto
          next
            case False
            with h have "x \<in> set pre \<and> (tbl(k \<mapsto> iwk')) x = Some b \<and>
                 Name (Imagecache (ImageWorkRequest b)) = n \<and>
                 Status b = ImageWorkResultStatusJobCreated" by simp
            with p(7) show ?thesis by blast
          qed
        qed
        moreover have "\<forall>x. x \<notin> set (k # pre) \<longrightarrow> tbl' x = tbl x" using p(8) by simp
        ultimately show ?thesis using p(4,5,6) by blast
      qed
    qed
  qed
qed



subsection \<open>The poll\<close>

lemma pollTicks_sends: "sends (pollTicks d n ks tbl) = []"
  by (induction d) simp_all

lemma pollForever_Some:
  assumes "pollForever n ks tbl = Some evs"
  shows "pollCondition n ks tbl"
  using assms
  by (rule pollForever.raw_induct
        [where P = "\<lambda>n ks tbl evs. pollCondition n ks tbl", rotated])
     (auto simp: bind_eq_Some_conv split: if_splits)

lemma pollForever_done:
  "pollCondition n ks tbl \<Longrightarrow> pollForever n ks tbl = Some [Sleep, RLock, RUnlock]"
  by (subst pollForever.simps) simp

lemma pollForever_stuck:
  "\<not> pollCondition n ks tbl \<Longrightarrow> pollForever n ks tbl = None"
  using pollForever_Some by (cases "pollForever n ks tbl") auto

text \<open>The poll returns exactly when there is a deadline or nothing is pending.\<close>

lemma waitPoll_returns:
  "(\<exists>evs. waitPoll d n ks tbl = Some evs) = (0 < d \<or> pollCondition n ks tbl)"
  by (auto simp: waitPoll_def pollForever_done dest: pollForever_Some)

lemma waitPoll_sends: "waitPoll d n ks tbl = Some evs \<Longrightarrow> sends evs = []"
  by (cases "pollCondition n ks tbl")
     (auto simp: waitPoll_def pollForever_done pollForever_stuck pollTicks_sends
           split: if_splits)

lemma pollCondition_none:
  "\<forall>job iw. tbl job = Some iw \<longrightarrow> Name (Imagecache (ImageWorkRequest iw)) \<noteq> n \<Longrightarrow>
   pollCondition n ks tbl"
  by (induction ks) (auto split: option.splits)

lemma lockScoped_pollTicks:
  "lockScoped bad Unlocked (pollTicks d n ks tbl @ rest) = lockScoped bad Unlocked rest"
  by (induction d) simp_all

lemma lockScoped_waitPoll:
  "waitPoll d n ks tbl = Some evs \<Longrightarrow>
   lockScoped bad Unlocked (evs @ rest) = lockScoped bad Unlocked rest"
  by (cases "pollCondition n ks tbl")
     (auto simp: waitPoll_def pollForever_done pollForever_stuck lockScoped_pollTicks
           split: if_splits)

subsection \<open>The run as a whole\<close>

lemma sends_loop_events [simp]:
  "\<forall>e \<in> set evs. clusterCall e \<Longrightarrow> sends (evs @ rest) = sends rest"
  by (simp add: sends_append sends_clusterCalls)

text \<open>The run returns exactly when its poll does.\<close>

lemma updateImageCacheStatus_returns:
  "(\<exists>evs m'. updateImageCacheStatus c n kp k1 k2 m = Some (evs, m')) =
   (0 < imagePullDeadlineDuration m \<or> pollCondition n kp (imageworkstatus m))"
proof -
  have "(\<exists>evs m'. updateImageCacheStatus c n kp k1 k2 m = Some (evs, m')) =
        (\<exists>e0. waitPoll (imagePullDeadlineDuration m) n kp (imageworkstatus m) = Some e0)"
    by (auto simp: updateImageCacheStatus_def split: option.splits prod.splits sum.splits)
  then show ?thesis by (simp add: waitPoll_returns)
qed

text \<open>A run that returns, spelled out in terms of what its two loops return.\<close>

lemma updateImageCacheStatus_run:
  assumes p: "pendingLoop c n k1 (imageworkstatus m) = (e1, tbl1, r1)"
      and s: "snapshotLoop c n k2 tbl1 Map.empty None = (e2, tbl2, snap, ic, r2)"
      and run: "updateImageCacheStatus c n kp k1 k2 m = Some (evs, m')"
  shows "sends evs =
           [case r1 of Some err \<Rightarrow> Some err
            | None \<Rightarrow>
                (case r2 of Some err \<Rightarrow> Some err
                 | None \<Rightarrow>
                     (case ic of None \<Rightarrow> Some NoImageCacheReference
                      | Some i \<Rightarrow>
                          (case MetaNamespaceKeyFunc c i of Inl err \<Rightarrow> Some err
                           | Inr objKey \<Rightarrow> None)))]"
    and "imageworkstatus m' = (case r1 of Some err \<Rightarrow> tbl1 | None \<Rightarrow> tbl2)"
    and "workqueue m' =
           (case (r1, r2, ic) of
              (None, None, Some i) \<Rightarrow>
                (case MetaNamespaceKeyFunc c i of Inl err \<Rightarrow> workqueue m
                 | Inr objKey \<Rightarrow>
                     workqueue m @
                       [\<lparr>KeyWorkType = ImageCacheStatusUpdate, ObjKey = objKey,
                         KeyStatus = Some snap, OldImageCache = None\<rparr>])
            | _ \<Rightarrow> workqueue m)"
proof -
  obtain e0 where w: "waitPoll (imagePullDeadlineDuration m) n kp (imageworkstatus m) = Some e0"
    using run by (auto simp: updateImageCacheStatus_def split: option.splits)
  note ev = pendingLoop_events[OF p] snapshotLoop_events[OF s]
  have w0: "sends (e0 @ rest) = sends rest" for rest
    by (simp add: sends_append waitPoll_sends[OF w])
  show "sends evs =
           [case r1 of Some err \<Rightarrow> Some err
            | None \<Rightarrow>
                (case r2 of Some err \<Rightarrow> Some err
                 | None \<Rightarrow>
                     (case ic of None \<Rightarrow> Some NoImageCacheReference
                      | Some i \<Rightarrow>
                          (case MetaNamespaceKeyFunc c i of Inl err \<Rightarrow> Some err
                           | Inr objKey \<Rightarrow> None)))]"
    using run p s ev w
    by (auto simp: updateImageCacheStatus_def updatePendingImageWorkResults_def w0
        split: option.splits sum.splits)
  show "imageworkstatus m' = (case r1 of Some err \<Rightarrow> tbl1 | None \<Rightarrow> tbl2)"
    using run p s w
    by (auto simp: updateImageCacheStatus_def updatePendingImageWorkResults_def
        split: option.splits sum.splits)
  show "workqueue m' =
           (case (r1, r2, ic) of
              (None, None, Some i) \<Rightarrow>
                (case MetaNamespaceKeyFunc c i of Inl err \<Rightarrow> workqueue m
                 | Inr objKey \<Rightarrow>
                     workqueue m @
                       [\<lparr>KeyWorkType = ImageCacheStatusUpdate, ObjKey = objKey,
                         KeyStatus = Some snap, OldImageCache = None\<rparr>])
            | _ \<Rightarrow> workqueue m)"
    using run p s w
    by (auto simp: updateImageCacheStatus_def updatePendingImageWorkResults_def
        split: option.splits sum.splits)
qed

text \<open>What a forced resolution that succeeds stores.\<close>

lemma pendingReason_fields:
  "(Reason (pendingReason pod iw), Message (pendingReason pod iw)) =
     (if Phase (PodStatus pod) \<noteq> PodPending then (Reason iw, Message iw)
      else case ContainerStatuses (PodStatus pod) of
             [cs] \<Rightarrow>
               (case Terminated (State cs) of
                  Some t \<Rightarrow> (TerminatedReason t, TerminatedMessage t)
                | None \<Rightarrow>
                    (case Waiting (State cs) of
                       Some w \<Rightarrow> (WaitingReason w, WaitingMessage w)
                     | None \<Rightarrow> (Reason iw, Message iw)))
           | _ \<Rightarrow> (''Pending'', ''Check if node is ready''))"
  by (simp add: pendingReason_def Let_def split: list.splits option.splits)

lemma forceResolve_stored:
  assumes "forceResolve c job iw = (es, Inr iw')"
  shows "\<exists>pod. podsList c job = Inr [pod] \<and>
           (if WorkType (ImageWorkRequest iw) = ImageCachePurge
            then iw' = pendingReason pod (iw\<lparr>Status := ImageWorkResultStatusFailed\<rparr>)
            else \<exists>eventlist. eventsList c (PodName pod) = Inr eventlist \<and>
                   iw' = (pendingReason pod (iw\<lparr>Status := ImageWorkResultStatusFailed\<rparr>))
                           \<lparr>Message := foldl (\<lambda>a v. a @ '':'' @ EventMessage v)
                              (Message (pendingReason pod
                                 (iw\<lparr>Status := ImageWorkResultStatusFailed\<rparr>))) eventlist\<rparr>)"
  using assms
  by (auto simp: forceResolve_def Let_def pendingReason_keeps
      split: sum.splits list.splits if_splits)

lemma forceResolve_result:
  assumes fr: "forceResolve c job iw = (es, Inr iw')"
  shows "\<exists>pod rsn msg.
           podsList c job = Inr [pod] \<and>
           Status iw' = ImageWorkResultStatusFailed \<and>
           ImageWorkRequest iw' = ImageWorkRequest iw \<and>
           Reason iw' = rsn \<and>
           (rsn, msg) =
             (if Phase (PodStatus pod) \<noteq> PodPending then (Reason iw, Message iw)
              else case ContainerStatuses (PodStatus pod) of
                     [cs] \<Rightarrow>
                       (case Terminated (State cs) of
                          Some t \<Rightarrow> (TerminatedReason t, TerminatedMessage t)
                        | None \<Rightarrow>
                            (case Waiting (State cs) of
                               Some w \<Rightarrow> (WaitingReason w, WaitingMessage w)
                             | None \<Rightarrow> (Reason iw, Message iw)))
                   | _ \<Rightarrow> (''Pending'', ''Check if node is ready'')) \<and>
           (if WorkType (ImageWorkRequest iw) = ImageCachePurge then Message iw' = msg
            else \<exists>eventlist. eventsList c (PodName pod) = Inr eventlist \<and>
                   Message iw' = foldl (\<lambda>a v. a @ '':'' @ EventMessage v) msg eventlist)"
proof -
  from forceResolve_stored[OF fr] obtain pod where
    pod: "podsList c job = Inr [pod]"
    and st: "if WorkType (ImageWorkRequest iw) = ImageCachePurge
            then iw' = pendingReason pod (iw\<lparr>Status := ImageWorkResultStatusFailed\<rparr>)
            else \<exists>eventlist. eventsList c (PodName pod) = Inr eventlist \<and>
                   iw' = (pendingReason pod (iw\<lparr>Status := ImageWorkResultStatusFailed\<rparr>))
                           \<lparr>Message := foldl (\<lambda>a v. a @ '':'' @ EventMessage v)
                              (Message (pendingReason pod
                                 (iw\<lparr>Status := ImageWorkResultStatusFailed\<rparr>))) eventlist\<rparr>"
    by blast
  let ?iw1 = "pendingReason pod (iw\<lparr>Status := ImageWorkResultStatusFailed\<rparr>)"
  have f: "(Reason ?iw1, Message ?iw1) =
             (if Phase (PodStatus pod) \<noteq> PodPending then (Reason iw, Message iw)
              else case ContainerStatuses (PodStatus pod) of
                     [cs] \<Rightarrow>
                       (case Terminated (State cs) of
                          Some t \<Rightarrow> (TerminatedReason t, TerminatedMessage t)
                        | None \<Rightarrow>
                            (case Waiting (State cs) of
                               Some w \<Rightarrow> (WaitingReason w, WaitingMessage w)
                             | None \<Rightarrow> (Reason iw, Message iw)))
                   | _ \<Rightarrow> (''Pending'', ''Check if node is ready''))"
    by (simp add: pendingReason_fields split: list.splits option.splits)
  have k: "Status ?iw1 = ImageWorkResultStatusFailed"
    "ImageWorkRequest ?iw1 = ImageWorkRequest iw"
    by (simp_all add: pendingReason_keeps)
  show ?thesis
  proof (cases "WorkType (ImageWorkRequest iw) = ImageCachePurge")
    case True
    with st have "iw' = ?iw1" by simp
    with pod f k True show ?thesis
      by (intro exI[of _ pod] exI[of _ "Reason ?iw1"] exI[of _ "Message ?iw1"]) simp
  next
    case False
    with st obtain eventlist where
      e: "eventsList c (PodName pod) = Inr eventlist"
         "iw' = ?iw1\<lparr>Message := foldl (\<lambda>a v. a @ '':'' @ EventMessage v)
                              (Message ?iw1) eventlist\<rparr>" by auto
    with pod f k False show ?thesis
      by (intro exI[of _ pod] exI[of _ "Reason ?iw1"] exI[of _ "Message ?iw1"]) simp
  qed
qed


subsection \<open>Locks, queue calls and channel operations\<close>

lemma lockScoped_clusterCalls:
  "\<forall>e \<in> set evs. clusterCall e \<Longrightarrow>
   lockScoped waiting st (evs @ rest) = lockScoped waiting st rest"
proof (induction evs)
  case Nil
  then show ?case by simp
next
  case (Cons e evs)
  then have "clusterCall e" by simp
  with Cons show ?case by (cases e) (simp_all add: clusterCall_def)
qed

text \<open>If nothing happens under the lock, then nothing of any one kind does.\<close>

lemma lockScoped_anyEvent:
  "lockScoped anyEvent st evs \<Longrightarrow> lockScoped bad st evs"
  by (induction bad st evs rule: lockScoped.induct) (simp_all add: anyEvent_def)

lemma lockScoped_handlePodStatusChange:
  "lockScoped anyEvent Unlocked (fst (handlePodStatusChange p tbl))"
  by (simp add: handlePodStatusChange_def Let_def split: option.splits list.splits)

lemma lockScoped_processNextWorkItem:
  "lockScoped anyEvent Unlocked (fst (processNextWorkItem c obj sh m))"
  by (auto simp: processNextWorkItem_def pullImage_def deleteImage_def
      split: queue_item.splits sum.splits prod.splits)

lemma lockScoped_run:
  assumes run: "updateImageCacheStatus c n kp k1 k2 m = Some (evs, m')"
  shows "lockScoped waiting Unlocked evs"
proof -
  obtain e0 where w: "waitPoll (imagePullDeadlineDuration m) n kp (imageworkstatus m) = Some e0"
    using run by (auto simp: updateImageCacheStatus_def split: option.splits)
  obtain e1 tbl1 r1 where p: "pendingLoop c n k1 (imageworkstatus m) = (e1, tbl1, r1)"
    by (cases "pendingLoop c n k1 (imageworkstatus m)") auto
  obtain e2 tbl2 snap ic r2 where
    s: "snapshotLoop c n k2 tbl1 Map.empty None = (e2, tbl2, snap, ic, r2)"
    by (cases "snapshotLoop c n k2 tbl1 Map.empty None") auto
  note ev = pendingLoop_events[OF p] snapshotLoop_events[OF s]
  show ?thesis
    using run p s w
    by (auto simp: updateImageCacheStatus_def updatePendingImageWorkResults_def
        lockScoped_waitPoll[OF w] lockScoped_clusterCalls[OF ev(1)]
        lockScoped_clusterCalls[OF ev(2)]
        split: option.splits sum.splits)
qed

lemma updatePendingImageWorkResults_events:
  "\<exists>evs. fst (updatePendingImageWorkResults c n ks tbl) = Lock # evs @ [Unlock] \<and>
         list_all clusterCall evs"
proof -
  obtain e1 tbl1 r1 where p: "pendingLoop c n ks tbl = (e1, tbl1, r1)"
    by (cases "pendingLoop c n ks tbl") auto
  from pendingLoop_events[OF p] have "list_all clusterCall e1" by (simp add: list_all_iff)
  with p show ?thesis by (simp add: updatePendingImageWorkResults_def)
qed

lemma handlePodStatusChange_RLock: "RLock \<in> set (fst (handlePodStatusChange p tbl))"
  by (simp add: handlePodStatusChange_def Let_def split: option.splits list.splits)

lemma processNextWorkItem_calls:
  "Recv \<notin> set (fst (processNextWorkItem c obj sh m))"
  "QAddRateLimited x \<notin> set (fst (processNextWorkItem c obj sh m))"
  by (auto simp: processNextWorkItem_def pullImage_def deleteImage_def
      split: queue_item.splits sum.splits prod.splits)

lemma run_sends_once:
  assumes run: "updateImageCacheStatus c n kp k1 k2 m = Some (evs, m')"
  shows "length (sends evs) = 1"
proof -
  obtain e1 tbl1 r1 where p: "pendingLoop c n k1 (imageworkstatus m) = (e1, tbl1, r1)"
    by (cases "pendingLoop c n k1 (imageworkstatus m)") auto
  obtain e2 tbl2 snap ic r2 where
    s: "snapshotLoop c n k2 tbl1 Map.empty None = (e2, tbl2, snap, ic, r2)"
    by (cases "snapshotLoop c n k2 tbl1 Map.empty None") auto
  from updateImageCacheStatus_run(1)[OF p s run] show ?thesis by simp
qed

subsection \<open>Unfolding the model and the examples\<close>

lemmas const_defs = fakeJobPrefix_def ImageWorkResultStatusSucceeded_def
  ImageWorkResultStatusFailed_def ImageWorkResultStatusJobCreated_def
  ImageWorkResultStatusAlreadyPulled_def ImageCacheCreate_def ImageCachePurge_def
  ImageCacheStatusUpdate_def PodPending_def PodRunning_def PodSucceeded_def PodFailed_def

lemmas example_defs = cache1_def cache2_def node1_def pullRequest_def purgeRequest_def
  otherRequest_def flushRequest_def entry_def manager_def examplePod_def waitingStatus_def
  terminatedStatus_def calmCluster_def deleteFails_def createFails_def pendingCluster_def
  runningCluster_def oneResolved_def otherCache_def twoResolvedOnePending_def twoPending_def
  twoResolved_def onePending_def

lemmas run_defs = updateImageCacheStatus_def updatePendingImageWorkResults_def
  forceResolve_def pendingReason_def handlePodStatusChange_def UpdateFunc_def
  processNextWorkItem_def pullImage_def deleteImage_def waitPoll_def Let_def label_def

section \<open>The claims\<close>




text \<open>
  Claim C2. The forced-resolution pass leaves every entry whose status is not
  \<open>jobcreated\<close> exactly as it was, whatever the order of the loop, the cluster's answers and
  the outcome of the pass; so an entry the observer has set to \<open>succeeded\<close> is not
  overwritten to \<open>failed\<close>. The only change the pass makes to any key is to turn a
  \<open>jobcreated\<close> entry into a \<open>failed\<close> one, so it resolves no entry a second time.
\<close>

theorem forced_resolution_frame:
  assumes pass: "updatePendingImageWorkResults c n ks tbl = (evs, tbl', r)"
      and e: "tbl job = Some iw"
      and st: "Status iw \<noteq> ImageWorkResultStatusJobCreated"
  shows "tbl' job = Some iw \<and>
         (\<forall>j. tbl' j = tbl j \<or>
              (\<exists>a b. tbl j = Some a \<and> Status a = ImageWorkResultStatusJobCreated \<and>
                     tbl' j = Some b \<and> Status b = ImageWorkResultStatusFailed))"
proof -
  obtain es where p: "pendingLoop c n ks tbl = (es, tbl', r)"
    using pass by (auto simp: updatePendingImageWorkResults_def split: prod.splits)
  have "tbl' job = Some iw" using pendingLoop_frame[OF p e st] .
  moreover have "tbl' j = tbl j \<or>
              (\<exists>a b. tbl j = Some a \<and> Status a = ImageWorkResultStatusJobCreated \<and>
                     tbl' j = Some b \<and> Status b = ImageWorkResultStatusFailed)" for j
    using pendingLoop_cases[OF p, of j] forceResolve_status by blast
  ultimately show ?thesis by blast
qed

text \<open>
  C2 at a concrete table: \<open>job1\<close> is \<open>succeeded\<close> when the pass runs and \<open>job3\<close> is force
  resolved; \<open>job1\<close> comes out as it went in.
\<close>

theorem forced_resolution_frame_witness:
  "twoResolvedOnePending ''job1'' = Some (entry ImageWorkResultStatusSucceeded pullRequest) \<and>
   Status (entry ImageWorkResultStatusSucceeded pullRequest) \<noteq> ImageWorkResultStatusJobCreated \<and>
   fst (snd (updatePendingImageWorkResults pendingCluster ''cache1''
               [''job3'', ''job1'', ''job2''] twoResolvedOnePending)) ''job1''
     = Some (entry ImageWorkResultStatusSucceeded pullRequest)"
proof -
  let ?pass = "updatePendingImageWorkResults pendingCluster ''cache1''
                 [''job3'', ''job1'', ''job2''] twoResolvedOnePending"
  have h1: "?pass = (fst ?pass, fst (snd ?pass), snd (snd ?pass))" by simp
  have h2: "twoResolvedOnePending ''job1'' = Some (entry ImageWorkResultStatusSucceeded pullRequest)"
    by (simp add: example_defs)
  have h3: "Status (entry ImageWorkResultStatusSucceeded pullRequest) \<noteq> ImageWorkResultStatusJobCreated"
    by (simp add: example_defs const_defs)
  from forced_resolution_frame[OF h1 h2 h3] h2 h3 show ?thesis by simp
qed

text \<open>
  Claim C3. The code fails its first half: when the job cannot be created, for a purge
  as for a pull, \<open>processNextWorkItem\<close> marks the item done and logs the error; it records
  no entry, and it does not hand the item back to the queue. No path of the function
  calls \<open>AddRateLimited\<close> on the image work queue.
\<close>

theorem launch_failure_not_requeued:
  "processNextWorkItem createFails (IWR purgeRequest) False (manager Map.empty) =
     ([CreateJob ''cache1-del-k8s2p'', QDone (IWR purgeRequest),
       HandleError (ErrorDeletingImage ''nginx:1.21'' (ApiError ''jobs create failed''))],
      manager Map.empty, True) \<and>
   processNextWorkItem createFails (IWR pullRequest) False (manager Map.empty) =
     ([CreateJob ''cache1-pull-x2x9f'', QDone (IWR pullRequest),
       HandleError (ErrorPullingImage ''nginx:1.21'' (ApiError ''jobs create failed''))],
      manager Map.empty, True) \<and>
   QAddRateLimited x \<notin> set (fst (processNextWorkItem c obj sh m))"
  using processNextWorkItem_calls(2)[of x c obj sh m]
  by (simp add: run_defs const_defs example_defs)

text \<open>
  Claim C4. The code fails it: for a flush item, \<open>processNextWorkItem\<close> makes the
  channel, starts the run and returns; no path of the function receives from the
  channel. A run returns exactly when its poll does (there is a deadline, or nothing of
  the image cache is pending), and a run that returns has sent on the channel exactly
  once.
\<close>

theorem flush_outcome_never_received:
  "processNextWorkItem calmCluster (IWR flushRequest) False (manager Map.empty) =
     ([QForget (IWR flushRequest), MakeChan, Go ''cache1'', QDone (IWR flushRequest)],
      manager Map.empty, True) \<and>
   Recv \<notin> set (fst (processNextWorkItem c obj sh m)) \<and>
   (\<exists>evs m''. updateImageCacheStatus c n kp k1 k2 m' = Some (evs, m'')) =
     (0 < imagePullDeadlineDuration m' \<or> pollCondition n kp (imageworkstatus m')) \<and>
   (\<forall>evs m''. updateImageCacheStatus c n kp k1 k2 m' = Some (evs, m'') \<longrightarrow>
      length (sends evs) = 1)"
  using processNextWorkItem_calls(1)[of c obj sh m] run_sends_once[of c n kp k1 k2 m']
    updateImageCacheStatus_returns[of c n kp k1 k2 m']
  by (simp add: run_defs const_defs example_defs)

text \<open>C4 at a run over a table whose one entry is resolved: it returns and has sent once.\<close>

theorem flush_outcome_never_received_witness:
  "0 < imagePullDeadlineDuration (manager oneResolved) \<and>
   (\<exists>evs m''.
      updateImageCacheStatus calmCluster ''cache1'' [''job1''] [''job1''] [''job1'']
        (manager oneResolved) = Some (evs, m'') \<and>
      length (sends evs) = 1)"
proof -
  have d: "0 < imagePullDeadlineDuration (manager oneResolved)" by (simp add: manager_def)
  note t = flush_outcome_never_received
    [where c = calmCluster and n = "''cache1''" and kp = "[''job1'']" and ?k1.0 = "[''job1'']"
       and ?k2.0 = "[''job1'']" and m' = "manager oneResolved"]
  from t d show ?thesis by blast
qed

text \<open>
  Claim C5, amended. The pod status handler and the dispatcher take \<open>m.lock\<close> only around
  the single map access and have released it when they return: nothing at all happens
  while they hold it, so no request to the API server, no sleep and no channel
  operation does. The same holds of the poll, whose sleeps fall outside its read lock,
  for every number of intervals. A run of the reconciler that returns has never held
  the lock across a sleep or a channel operation and has released it. The forced
  resolution, however, is one critical section: it takes the write lock, performs all of
  its pod listings and event queries, and releases the lock last.
\<close>

theorem lock_scope:
  "lockScoped anyEvent Unlocked (fst (handlePodStatusChange p tbl)) \<and>
   lockScoped blocking Unlocked (fst (handlePodStatusChange p tbl)) \<and>
   lockScoped anyEvent Unlocked (fst (processNextWorkItem c obj sh m)) \<and>
   lockScoped blocking Unlocked (fst (processNextWorkItem c obj sh m)) \<and>
   lockScoped anyEvent Unlocked (pollTicks d n ks tbl') \<and>
   lockScoped blocking Unlocked (pollTicks d n ks tbl') \<and>
   (\<forall>evs. waitPoll d n ks tbl' = Some evs \<longrightarrow>
      lockScoped anyEvent Unlocked evs \<and> lockScoped blocking Unlocked evs) \<and>
   (\<forall>evs mm. updateImageCacheStatus c' n' kp k1 k2 m' = Some (evs, mm) \<longrightarrow>
      lockScoped waiting Unlocked evs) \<and>
   (\<exists>evs. fst (updatePendingImageWorkResults c'' n'' ks'' tbl'') = Lock # evs @ [Unlock] \<and>
          list_all clusterCall evs)"
proof -
  have a: "lockScoped anyEvent Unlocked (fst (handlePodStatusChange p tbl))"
    by (rule lockScoped_handlePodStatusChange)
  have b: "lockScoped anyEvent Unlocked (fst (processNextWorkItem c obj sh m))"
    by (rule lockScoped_processNextWorkItem)
  have t: "lockScoped bad Unlocked (pollTicks d n ks tbl')" for bad
    using lockScoped_pollTicks[of bad d n ks tbl' "[]"] by simp
  have w: "lockScoped bad Unlocked evs" if "waitPoll d n ks tbl' = Some evs" for bad evs
    using lockScoped_waitPoll[OF that, of bad "[]"] by simp
  from a b t w lockScoped_anyEvent lockScoped_run
    updatePendingImageWorkResults_events[of c'' n'' ks'' tbl'']
  show ?thesis by blast
qed

text \<open>
  Claim C5 as stated fails: the snapshot loop deletes \<open>job1\<close> through the API server
  while it holds the write lock.
\<close>

theorem lock_held_across_job_deletion:
  "map_option fst
     (updateImageCacheStatus calmCluster ''cache1'' [''job1''] [''job1''] [''job1'']
        (manager oneResolved))
     = Some [Sleep, RLock, RUnlock, Lock, Unlock, Lock, DeleteJob ''job1'', Unlock, Send None] \<and>
   \<not> lockScoped blocking Unlocked
       [Sleep, RLock, RUnlock, Lock, Unlock, Lock, DeleteJob ''job1'', Unlock, Send None]"
  by (simp add: run_defs const_defs example_defs)

text \<open>C5 at a failed pod, a purge request, a poll of one interval, a run and a pass.\<close>

theorem lock_scope_witness:
  "lockScoped anyEvent Unlocked
     (fst (handlePodStatusChange
             (examplePod ''pod3'' ''job3'' ''8'' PodFailed
                [terminatedStatus ''Error'' ''exit status 1''])
             twoResolvedOnePending)) \<and>
   lockScoped anyEvent Unlocked
     (fst (processNextWorkItem calmCluster (IWR purgeRequest) False (manager Map.empty))) \<and>
   waitPoll (Suc 0) ''cache1'' [''job3''] twoResolvedOnePending = Some [Sleep, RLock, RUnlock] \<and>
   lockScoped blocking Unlocked [Sleep, RLock, RUnlock] \<and>
   (\<exists>evs mm.
      updateImageCacheStatus calmCluster ''cache1'' [''job1''] [''job1''] [''job1'']
        (manager oneResolved) = Some (evs, mm) \<and>
      lockScoped waiting Unlocked evs) \<and>
   (\<exists>evs. fst (updatePendingImageWorkResults pendingCluster ''cache1'' [''job3'']
                   twoResolvedOnePending) = Lock # evs @ [Unlock] \<and>
          list_all clusterCall evs)"
proof -
  note t = lock_scope
    [where p = "examplePod ''pod3'' ''job3'' ''8'' PodFailed
                  [terminatedStatus ''Error'' ''exit status 1'']"
       and tbl = twoResolvedOnePending and c = calmCluster and obj = "IWR purgeRequest"
       and sh = False and m = "manager Map.empty" and d = "Suc 0" and n = "''cache1''"
       and ks = "[''job3'']" and tbl' = twoResolvedOnePending and c' = calmCluster
       and n' = "''cache1''" and kp = "[''job1'']" and ?k1.0 = "[''job1'']"
       and ?k2.0 = "[''job1'']" and m' = "manager oneResolved" and c'' = pendingCluster
       and n'' = "''cache1''" and ks'' = "[''job3'']" and tbl'' = twoResolvedOnePending]
  have w: "waitPoll (Suc 0) ''cache1'' [''job3''] twoResolvedOnePending
             = Some [Sleep, RLock, RUnlock]"
    by (simp add: run_defs const_defs example_defs)
  obtain evs mm where run:
    "updateImageCacheStatus calmCluster ''cache1'' [''job1''] [''job1''] [''job1'']
        (manager oneResolved) = Some (evs, mm)"
    using updateImageCacheStatus_returns
      [of calmCluster "''cache1''" "[''job1'']" "[''job1'']" "[''job1'']" "manager oneResolved"]
    by (auto simp: manager_def)
  from t w run show ?thesis by auto
qed

text \<open>
  Claim C6, amended. Take a run whose poll returns. If an entry of the image cache is
  still \<open>jobcreated\<close> when the pass runs and the pod listing for its job gives no pod or
  more than one, the run ends with an error on the completion channel and emits no
  status update. The pass stopped at the first key of its order that holds a pending
  entry of the image cache whose resolution fails, and the error is that failure. No key
  was removed. The pending entries of the image cache that come before that key in the
  order of the loop are \<open>failed\<close>, with the same request; every other entry of the
  table, the entry with no pod or several among them, is exactly as it was.
\<close>

theorem ambiguous_pods_abort:
  assumes ret: "0 < imagePullDeadlineDuration m \<or> pollCondition n kp (imageworkstatus m)"
      and e: "imageworkstatus m job = Some iw"
      and b: "Name (Imagecache (ImageWorkRequest iw)) = n"
      and st: "Status iw = ImageWorkResultStatusJobCreated"
      and v: "job \<in> set k1"
      and pods: "podsList c job = Inr pods" "length pods \<noteq> 1"
  shows "\<exists>evs m' err pre j post a es.
           updateImageCacheStatus c n kp k1 k2 m = Some (evs, m') \<and>
           sends evs = [Some err] \<and> workqueue m' = workqueue m \<and>
           imageworkstatus m' job = Some iw \<and>
           k1 = pre @ j # post \<and> j \<notin> set pre \<and> imageworkstatus m j = Some a \<and>
           Name (Imagecache (ImageWorkRequest a)) = n \<and>
           Status a = ImageWorkResultStatusJobCreated \<and>
           forceResolve c j a = (es, Inl err) \<and>
           (\<forall>k x. k \<in> set pre \<and> imageworkstatus m k = Some x \<and>
              Name (Imagecache (ImageWorkRequest x)) = n \<and>
              Status x = ImageWorkResultStatusJobCreated \<longrightarrow>
              (\<exists>y. imageworkstatus m' k = Some y \<and> Status y = ImageWorkResultStatusFailed \<and>
                   ImageWorkRequest y = ImageWorkRequest x)) \<and>
           (\<forall>k. imageworkstatus m' k = imageworkstatus m k \<or>
              (\<exists>x. k \<in> set pre \<and> imageworkstatus m k = Some x \<and>
                   Name (Imagecache (ImageWorkRequest x)) = n \<and>
                   Status x = ImageWorkResultStatusJobCreated))"
proof -
  from ret obtain evs m' where run: "updateImageCacheStatus c n kp k1 k2 m = Some (evs, m')"
    using updateImageCacheStatus_returns[of c n kp k1 k2 m] by auto
  obtain e1 tbl1 r1 where p: "pendingLoop c n k1 (imageworkstatus m) = (e1, tbl1, r1)"
    by (cases "pendingLoop c n k1 (imageworkstatus m)") auto
  obtain e2 tbl2 snap ic r2 where
    s: "snapshotLoop c n k2 tbl1 Map.empty None = (e2, tbl2, snap, ic, r2)"
    by (cases "snapshotLoop c n k2 tbl1 Map.empty None") auto
  have nores: "forceResolve c job iw \<noteq> (es, Inr iw')" for es iw'
    using forceResolve_Inr[of c job iw es iw'] pods by auto
  have "r1 \<noteq> None"
  proof
    assume "r1 = None"
    with p have "pendingLoop c n k1 (imageworkstatus m) = (e1, tbl1, None)" by simp
    from pendingLoop_success[OF this v e b st] nores show False by blast
  qed
  then obtain err where r1: "r1 = Some err" by auto
  have same: "tbl1 job = Some iw"
    using pendingLoop_cases[OF p, of job] e nores by auto
  note r = updateImageCacheStatus_run[OF p s run]
  from r r1 have out: "sends evs = [Some err]" "workqueue m' = workqueue m"
    "imageworkstatus m' = tbl1" by simp_all
  from p r1 have pe: "pendingLoop c n k1 (imageworkstatus m) = (e1, tbl1, Some err)" by simp
  from pendingLoop_error[OF pe] obtain pre j post a es where
    q: "k1 = pre @ j # post" "j \<notin> set pre" "imageworkstatus m j = Some a"
       "Name (Imagecache (ImageWorkRequest a)) = n"
       "Status a = ImageWorkResultStatusJobCreated"
       "forceResolve c j a = (es, Inl err)"
       "\<forall>k x. k \<in> set pre \<and> imageworkstatus m k = Some x \<and>
           Name (Imagecache (ImageWorkRequest x)) = n \<and>
           Status x = ImageWorkResultStatusJobCreated \<longrightarrow>
           (\<exists>es' y. forceResolve c k x = (es', Inr y) \<and> tbl1 k = Some y)"
       "\<forall>k. k \<notin> set pre \<longrightarrow> tbl1 k = imageworkstatus m k"
    by blast
  have q7: "\<forall>k x. k \<in> set pre \<and> imageworkstatus m k = Some x \<and>
              Name (Imagecache (ImageWorkRequest x)) = n \<and>
              Status x = ImageWorkResultStatusJobCreated \<longrightarrow>
              (\<exists>y. imageworkstatus m' k = Some y \<and> Status y = ImageWorkResultStatusFailed \<and>
                   ImageWorkRequest y = ImageWorkRequest x)"
    using q(7) forceResolve_Inr out(3) by blast
  have q8: "\<forall>k. imageworkstatus m' k = imageworkstatus m k \<or>
              (\<exists>x. k \<in> set pre \<and> imageworkstatus m k = Some x \<and>
                   Name (Imagecache (ImageWorkRequest x)) = n \<and>
                   Status x = ImageWorkResultStatusJobCreated)"
  proof
    fix k
    show "imageworkstatus m' k = imageworkstatus m k \<or>
              (\<exists>x. k \<in> set pre \<and> imageworkstatus m k = Some x \<and>
                   Name (Imagecache (ImageWorkRequest x)) = n \<and>
                   Status x = ImageWorkResultStatusJobCreated)"
      using q(8) out(3) pendingLoop_cases[OF p, of k] by (cases "k \<in> set pre") auto
  qed
  from run out(1,2) same out(3) q(1-6) q7 q8 show ?thesis by blast
qed

text \<open>
  C6 at two pending entries. \<open>job3\<close> comes first and has a pod, \<open>job4\<close> has none: the run
  ends with the error for \<open>job4\<close> and \<open>job4\<close> is as it was.
\<close>

theorem ambiguous_pods_abort_witness:
  "0 < imagePullDeadlineDuration (manager twoPending) \<and>
   twoPending ''job4'' = Some (entry ImageWorkResultStatusJobCreated purgeRequest) \<and>
   podsList runningCluster ''job4'' = Inr [] \<and>
   (\<exists>evs m'.
      updateImageCacheStatus runningCluster ''cache1'' [''job3'', ''job4''] [''job3'', ''job4'']
        [''job3'', ''job4''] (manager twoPending) = Some (evs, m') \<and>
      sends evs = [Some (NoPodsMatched ''job4'')] \<and> workqueue m' = [] \<and>
      imageworkstatus m' ''job4'' = Some (entry ImageWorkResultStatusJobCreated purgeRequest))"
proof -
  have h0: "0 < imagePullDeadlineDuration (manager twoPending) \<or>
            pollCondition ''cache1'' [''job3'', ''job4''] (imageworkstatus (manager twoPending))"
    by (simp add: manager_def)
  have h2: "imageworkstatus (manager twoPending) ''job4''
              = Some (entry ImageWorkResultStatusJobCreated purgeRequest)"
    by (simp add: example_defs)
  have h3: "Name (Imagecache (ImageWorkRequest (entry ImageWorkResultStatusJobCreated purgeRequest)))
              = ''cache1''"
    by (simp add: example_defs)
  have h4: "Status (entry ImageWorkResultStatusJobCreated purgeRequest)
              = ImageWorkResultStatusJobCreated"
    by (simp add: example_defs)
  have h5: "''job4'' \<in> set [''job3'', ''job4'']" by simp
  have h6: "podsList runningCluster ''job4'' = Inr []" "length ([] :: Pod list) \<noteq> 1"
    by (simp_all add: example_defs)
  note t = ambiguous_pods_abort[OF h0 h2 h3 h4 h5 h6, of "[''job3'', ''job4'']"]
  show ?thesis using t
    by (simp add: run_defs const_defs example_defs)
qed

text \<open>
  Claim C6 as stated fails: \<open>job3\<close> is visited first and has one pod, \<open>job4\<close> has none.
  The run aborts on \<open>job4\<close>, and \<open>job3\<close> has been changed from \<open>jobcreated\<close> to \<open>failed\<close>.
\<close>

theorem ambiguous_pods_abort_after_partial_resolution:
  "podsList runningCluster ''job4'' = Inr [] \<and>
   twoPending ''job3'' = Some (entry ImageWorkResultStatusJobCreated purgeRequest) \<and>
   twoPending ''job4'' = Some (entry ImageWorkResultStatusJobCreated purgeRequest) \<and>
   updateImageCacheStatus runningCluster ''cache1'' [''job3'', ''job4''] [''job3'', ''job4'']
       [''job3'', ''job4''] (manager twoPending)
     = Some ([Sleep, RLock, RUnlock, Lock, ListPods ''job3'', ListPods ''job4'', Unlock,
              Send (Some (NoPodsMatched ''job4''))],
             manager (twoPending(''job3'' \<mapsto> entry ImageWorkResultStatusFailed purgeRequest)))"
  by (simp add: run_defs const_defs example_defs)

text \<open>
  Claim C7, amended. After a run that ends without an error, the one status update it
  emits carries every entry of the image cache: an entry that was already resolved is
  there unchanged, and an entry that was still \<open>jobcreated\<close> is there as \<open>failed\<close>, with
  the same request. Its reason and message are taken from the one pod of its job: for a
  pod that is not pending, the reason and message the entry had before; for a pending
  pod whose number of container statuses is not one, \<open>Pending\<close> and \<open>Check if node is
  ready\<close>; for a pending pod with one container status, those of the terminated state if
  there is one, else those of the waiting state if there is one, else those the entry
  had before. For an entry that is not a purge, the messages of the pod's failure events
  are appended to the message, each after a colon, in the order of the listing.
\<close>

theorem forced_resolution_reason:
  assumes run: "updateImageCacheStatus c n kp k1 k2 m = Some (evs, m')"
      and ok: "sends evs = [None]"
      and e: "imageworkstatus m job = Some iw"
      and b: "Name (Imagecache (ImageWorkRequest iw)) = n"
      and v: "job \<in> set k1" "job \<in> set k2"
  shows "\<exists>objKey snap.
           workqueue m' = workqueue m @
             [\<lparr>KeyWorkType = ImageCacheStatusUpdate, ObjKey = objKey,
               KeyStatus = Some snap, OldImageCache = None\<rparr>] \<and>
           (Status iw \<noteq> ImageWorkResultStatusJobCreated \<and> snap job = Some iw \<or>
            Status iw = ImageWorkResultStatusJobCreated \<and>
            (\<exists>pod iw' rsn msg.
               podsList c job = Inr [pod] \<and> snap job = Some iw' \<and>
               Status iw' = ImageWorkResultStatusFailed \<and>
               ImageWorkRequest iw' = ImageWorkRequest iw \<and>
               Reason iw' = rsn \<and>
               (rsn, msg) =
                 (if Phase (PodStatus pod) \<noteq> PodPending then (Reason iw, Message iw)
                  else case ContainerStatuses (PodStatus pod) of
                         [cs] \<Rightarrow>
                           (case Terminated (State cs) of
                              Some t \<Rightarrow> (TerminatedReason t, TerminatedMessage t)
                            | None \<Rightarrow>
                                (case Waiting (State cs) of
                                   Some w \<Rightarrow> (WaitingReason w, WaitingMessage w)
                                 | None \<Rightarrow> (Reason iw, Message iw)))
                       | _ \<Rightarrow> (''Pending'', ''Check if node is ready'')) \<and>
               (if WorkType (ImageWorkRequest iw) = ImageCachePurge then Message iw' = msg
                else \<exists>eventlist.
                       eventsList c (PodName pod) = Inr eventlist \<and>
                       Message iw' =
                         foldl (\<lambda>a v. a @ '':'' @ EventMessage v) msg eventlist)))"
proof -
  obtain e1 tbl1 r1 where p: "pendingLoop c n k1 (imageworkstatus m) = (e1, tbl1, r1)"
    by (cases "pendingLoop c n k1 (imageworkstatus m)") auto
  obtain e2 tbl2 snap ic r2 where
    s: "snapshotLoop c n k2 tbl1 Map.empty None = (e2, tbl2, snap, ic, r2)"
    by (cases "snapshotLoop c n k2 tbl1 Map.empty None") auto
  note r = updateImageCacheStatus_run[OF p s run]
  from r(1) ok have r1: "r1 = None" by (auto split: option.splits)
  from r(1) ok r1 have r2: "r2 = None" by (auto split: option.splits)
  from r(1) ok r1 r2 obtain i objKey where
    ic: "ic = Some i" "MetaNamespaceKeyFunc c i = Inr objKey"
    by (auto split: option.splits sum.splits)
  from r(3) r1 r2 ic have wq: "workqueue m' = workqueue m @
             [\<lparr>KeyWorkType = ImageCacheStatusUpdate, ObjKey = objKey,
               KeyStatus = Some snap, OldImageCache = None\<rparr>]" by simp
  from pendingLoop_keeps_request[OF p e] obtain iw1 where
    iw1: "tbl1 job = Some iw1" "ImageWorkRequest iw1 = ImageWorkRequest iw" by blast
  from s r2 have s': "snapshotLoop c n k2 tbl1 Map.empty None = (e2, tbl2, snap, ic, None)" by simp
  from snapshotLoop_success[OF s' v(2) iw1(1)] iw1(2) b have sn: "snap job = Some iw1" by simp
  show ?thesis
  proof (cases "Status iw = ImageWorkResultStatusJobCreated")
    case False
    from pendingLoop_frame[OF p e False] iw1 have "iw1 = iw" by simp
    with wq sn False show ?thesis by blast
  next
    case True
    from p r1 have p': "pendingLoop c n k1 (imageworkstatus m) = (e1, tbl1, None)" by simp
    from pendingLoop_success[OF p' v(1) e b True] iw1 obtain es where
      fr: "forceResolve c job iw = (es, Inr iw1)" by auto
    from forceResolve_result[OF fr] sn have
      "\<exists>pod iw' rsn msg.
               podsList c job = Inr [pod] \<and> snap job = Some iw' \<and>
               Status iw' = ImageWorkResultStatusFailed \<and>
               ImageWorkRequest iw' = ImageWorkRequest iw \<and>
               Reason iw' = rsn \<and>
               (rsn, msg) =
                 (if Phase (PodStatus pod) \<noteq> PodPending then (Reason iw, Message iw)
                  else case ContainerStatuses (PodStatus pod) of
                         [cs] \<Rightarrow>
                           (case Terminated (State cs) of
                              Some t \<Rightarrow> (TerminatedReason t, TerminatedMessage t)
                            | None \<Rightarrow>
                                (case Waiting (State cs) of
                                   Some w \<Rightarrow> (WaitingReason w, WaitingMessage w)
                                 | None \<Rightarrow> (Reason iw, Message iw)))
                       | _ \<Rightarrow> (''Pending'', ''Check if node is ready'')) \<and>
               (if WorkType (ImageWorkRequest iw) = ImageCachePurge then Message iw' = msg
                else \<exists>eventlist.
                       eventsList c (PodName pod) = Inr eventlist \<and>
                       Message iw' =
                         foldl (\<lambda>a v. a @ '':'' @ EventMessage v) msg eventlist)"
      by blast
    with wq True show ?thesis by blast
  qed
qed

text \<open>
  C7 at the scenario of the specification: two entries resolved before the deadline, the
  third still pending, its pod waiting on the image. The snapshot holds all three.
\<close>

theorem forced_resolution_reason_witness:
  "twoResolvedOnePending ''job3'' = Some (entry ImageWorkResultStatusJobCreated pullRequest) \<and>
   (\<exists>evs m' snap.
      updateImageCacheStatus pendingCluster ''cache1'' [''job1'', ''job2'', ''job3'']
        [''job3'', ''job1'', ''job2''] [''job2'', ''job3'', ''job1'']
        (manager twoResolvedOnePending) = Some (evs, m') \<and>
      sends evs = [None] \<and>
      workqueue m'
        = [\<lparr>KeyWorkType = ImageCacheStatusUpdate, ObjKey = ''kube-fledged/cache1'',
            KeyStatus = Some snap, OldImageCache = None\<rparr>] \<and>
      snap ''job1'' = Some (entry ImageWorkResultStatusSucceeded pullRequest) \<and>
      snap ''job2'' = Some (entry ImageWorkResultStatusSucceeded pullRequest) \<and>
      snap ''job3'' = Some \<lparr>ImageWorkRequest = pullRequest, Status = ImageWorkResultStatusFailed,
                            Reason = ''ImagePullBackOff'',
                            Message = ''Back-off pulling image:Failed to pull image''\<rparr>)"
proof -
  let ?run = "updateImageCacheStatus pendingCluster ''cache1'' [''job1'', ''job2'', ''job3'']
                 [''job3'', ''job1'', ''job2''] [''job2'', ''job3'', ''job1'']
                 (manager twoResolvedOnePending)"
  obtain evs m' where h1: "?run = Some (evs, m')"
    using updateImageCacheStatus_returns
      [of pendingCluster "''cache1''" "[''job1'', ''job2'', ''job3'']"
          "[''job3'', ''job1'', ''job2'']" "[''job2'', ''job3'', ''job1'']"
          "manager twoResolvedOnePending"]
    by (auto simp: manager_def)
  have h2: "sends evs = [None]"
    using h1 by (simp add: run_defs const_defs example_defs) auto
  have h3: "imageworkstatus (manager twoResolvedOnePending) ''job3''
              = Some (entry ImageWorkResultStatusJobCreated pullRequest)"
    by (simp add: example_defs)
  have h4: "Name (Imagecache (ImageWorkRequest (entry ImageWorkResultStatusJobCreated pullRequest)))
              = ''cache1''"
    by (simp add: example_defs)
  have h5: "''job3'' \<in> set [''job3'', ''job1'', ''job2'']"
    "''job3'' \<in> set [''job2'', ''job3'', ''job1'']" by simp_all
  note t = forced_resolution_reason[OF h1 h2 h3 h4 h5]
  show ?thesis using t
    by (simp add: run_defs const_defs example_defs)
qed

text \<open>
  Claim C7 as stated fails: the pod of \<open>job3\<close> is running at the deadline. The entry is
  resolved to \<open>failed\<close> and its reason stays empty.
\<close>

theorem forced_resolution_reason_empty:
  "podsList runningCluster ''job3'' = Inr [examplePod ''pod3'' ''job3'' ''7'' PodRunning []] \<and>
   snd (snd (updatePendingImageWorkResults runningCluster ''cache1'' [''job3''] onePending)) = None \<and>
   fst (snd (updatePendingImageWorkResults runningCluster ''cache1'' [''job3''] onePending)) ''job3''
     = Some \<lparr>ImageWorkRequest = purgeRequest, Status = ImageWorkResultStatusFailed,
             Reason = [], Message = []\<rparr>"
  by (simp add: run_defs const_defs example_defs)

text \<open>
  Claim C8, amended. The handler runs (it takes the read lock) if and only if the
  resource version has changed, the new phase is Succeeded or Failed, and the old phase
  is neither Succeeded nor Failed.
\<close>

theorem update_handler_fires:
  "(RLock \<in> set (fst (UpdateFunc oldPod newPod tbl))) =
   (ResourceVersion newPod \<noteq> ResourceVersion oldPod \<and>
    (Phase (PodStatus newPod) = PodSucceeded \<or> Phase (PodStatus newPod) = PodFailed) \<and>
    Phase (PodStatus oldPod) \<noteq> PodSucceeded \<and> Phase (PodStatus oldPod) \<noteq> PodFailed)"
  using handlePodStatusChange_RLock[of newPod tbl] by (auto simp: UpdateFunc_def)

text \<open>
  Claim C8 as stated fails: the resource version has changed, the new phase is Failed and
  the old phase, Succeeded, is a different one; the handler does not run.
\<close>

theorem update_handler_skips_terminal_change:
  "ResourceVersion (examplePod ''pod1'' ''job1'' ''6'' PodFailed [terminatedStatus ''Error'' ''exit status 1''])
     \<noteq> ResourceVersion (examplePod ''pod1'' ''job1'' ''5'' PodSucceeded []) \<and>
   Phase (PodStatus (examplePod ''pod1'' ''job1'' ''6'' PodFailed [terminatedStatus ''Error'' ''exit status 1''])) = PodFailed \<and>
   Phase (PodStatus (examplePod ''pod1'' ''job1'' ''5'' PodSucceeded []))
     \<noteq> Phase (PodStatus (examplePod ''pod1'' ''job1'' ''6'' PodFailed [terminatedStatus ''Error'' ''exit status 1''])) \<and>
   UpdateFunc (examplePod ''pod1'' ''job1'' ''5'' PodSucceeded [])
     (examplePod ''pod1'' ''job1'' ''6'' PodFailed [terminatedStatus ''Error'' ''exit status 1''])
     oneResolved = ([], Inr oneResolved)"
  by (simp add: run_defs const_defs example_defs)

text \<open>C8 at a pod that goes from Running to Succeeded.\<close>

theorem update_handler_fires_witness:
  "RLock \<in> set (fst (UpdateFunc (examplePod ''pod1'' ''job1'' ''5'' PodRunning [])
                           (examplePod ''pod1'' ''job1'' ''6'' PodSucceeded [])
                           twoResolvedOnePending))"
  using update_handler_fires
    [of "examplePod ''pod1'' ''job1'' ''5'' PodRunning []"
        "examplePod ''pod1'' ''job1'' ''6'' PodSucceeded []" twoResolvedOnePending]
  by (simp add: const_defs example_defs)

text \<open>
  Claim C9. The code fails it: for a failed pod with no container status whose job is in
  the table, \<open>handlePodStatusChange\<close> reads \<open>ContainerStatuses[0]\<close> and panics after
  releasing the read lock; the entry is not written.
\<close>

theorem failed_pod_without_statuses_panics:
  "handlePodStatusChange (examplePod ''pod3'' ''job3'' ''8'' PodFailed []) twoResolvedOnePending
     = ([RLock, RUnlock], Inl IndexOutOfRange)"
  by (simp add: run_defs const_defs example_defs)

text \<open>
  Claim C10. When no entry of the table belongs to the image cache of the flush, the run
  returns, whatever the deadline; it sends the error "unable to obtain reference to image
  cache" on its completion channel, adds nothing to the reconciliation loop's queue, and
  leaves the table as it was.
\<close>

theorem no_entries_no_event:
  assumes none: "\<forall>job iw. imageworkstatus m job = Some iw \<longrightarrow>
                   Name (Imagecache (ImageWorkRequest iw)) \<noteq> n"
  shows "\<exists>evs m'. updateImageCacheStatus c n kp k1 k2 m = Some (evs, m') \<and>
           sends evs = [Some NoImageCacheReference] \<and> workqueue m' = workqueue m \<and>
           imageworkstatus m' = imageworkstatus m"
proof -
  have "pollCondition n kp (imageworkstatus m)"
    using none by (rule pollCondition_none)
  then obtain evs m' where run: "updateImageCacheStatus c n kp k1 k2 m = Some (evs, m')"
    using updateImageCacheStatus_returns[of c n kp k1 k2 m] by auto
  have p: "pendingLoop c n k1 (imageworkstatus m) = ([], imageworkstatus m, None)"
    using none by (rule pendingLoop_none)
  have s: "snapshotLoop c n k2 (imageworkstatus m) Map.empty None =
             ([], imageworkstatus m, Map.empty, None, None)"
    using none by (rule snapshotLoop_none)
  from updateImageCacheStatus_run[OF p s run] run show ?thesis by simp
qed

text \<open>
  C10 at a table whose only entry belongs to another image cache, with a deadline of one
  interval and with no deadline.
\<close>

theorem no_entries_no_event_witness:
  "otherCache ''job9'' = Some (entry ImageWorkResultStatusSucceeded otherRequest) \<and>
   Name (Imagecache (ImageWorkRequest (entry ImageWorkResultStatusSucceeded otherRequest)))
     \<noteq> ''cache1'' \<and>
   (\<exists>evs m'.
      updateImageCacheStatus calmCluster ''cache1'' [''job9''] [''job9''] [''job9'']
        (manager otherCache) = Some (evs, m') \<and>
      sends evs = [Some NoImageCacheReference] \<and> workqueue m' = [] \<and>
      imageworkstatus m' = otherCache) \<and>
   (\<exists>evs m'.
      updateImageCacheStatus calmCluster ''cache1'' [''job9''] [''job9''] [''job9'']
        ((manager otherCache)\<lparr>imagePullDeadlineDuration := 0\<rparr>) = Some (evs, m') \<and>
      sends evs = [Some NoImageCacheReference] \<and> workqueue m' = [] \<and>
      imageworkstatus m' = otherCache)"
proof -
  have h1: "\<forall>job iw. imageworkstatus (manager otherCache) job = Some iw \<longrightarrow>
              Name (Imagecache (ImageWorkRequest iw)) \<noteq> ''cache1''"
    by (auto simp: example_defs split: if_splits)
  have h2: "\<forall>job iw. imageworkstatus ((manager otherCache)\<lparr>imagePullDeadlineDuration := 0\<rparr>) job
                = Some iw \<longrightarrow>
              Name (Imagecache (ImageWorkRequest iw)) \<noteq> ''cache1''"
    by (auto simp: example_defs split: if_splits)
  note t1 = no_entries_no_event[OF h1, of calmCluster "[''job9'']" "[''job9'']" "[''job9'']"]
  note t2 = no_entries_no_event[OF h2, of calmCluster "[''job9'']" "[''job9'']" "[''job9'']"]
  from t1 t2 show ?thesis by (simp add: example_defs)
qed

end
